theory Spec2Isabelle
  imports Main
begin

section \<open>Go runtime: panics, indexing, slicing\<close>

text \<open>
  A Go string is a sequence of bytes, here a \<open>string\<close> (a list of 8-bit characters).
  An index or a slice expression out of range panics; the model returns the panic as a
  value, \<open>Inl\<close> of a sum. Go's \<open>int\<close> is taken as the 64-bit integer of the
  platforms the exporter is packaged for; it is an \<open>int\<close> here, the range being enforced
  where a value is produced (\<open>Atoi\<close>).
\<close>

datatype panic = IndexOutOfRange | SliceBoundsOutOfRange | MetricPanic

definition index :: "'a list \<Rightarrow> int \<Rightarrow> panic + 'a" where
  \<comment> \<open>\<open>xs[i]\<close>\<close>
  "index xs i = (if 0 \<le> i \<and> i < int (length xs) then Inr (xs ! nat i) else Inl IndexOutOfRange)"

definition slice :: "'a list \<Rightarrow> int \<Rightarrow> int \<Rightarrow> panic + 'a list" where
  \<comment> \<open>\<open>xs[lo:hi]\<close>; every call site has \<open>hi \<le> len(xs)\<close> when it does not panic,
      so capacity beyond the length is never read\<close>
  "slice xs lo hi =
     (if 0 \<le> lo \<and> lo \<le> hi \<and> hi \<le> int (length xs)
      then Inr (take (nat hi - nat lo) (drop (nat lo) xs))
      else Inl SliceBoundsOutOfRange)"

definition sliceFrom :: "'a list \<Rightarrow> int \<Rightarrow> panic + 'a list" where
  \<comment> \<open>\<open>xs[lo:]\<close>\<close>
  "sliceFrom xs lo = slice xs lo (int (length xs))"

definition pbind :: "panic + 'a \<Rightarrow> ('a \<Rightarrow> panic + 'b) \<Rightarrow> panic + 'b" where
  "pbind m f = (case m of Inl p \<Rightarrow> Inl p | Inr x \<Rightarrow> f x)"

section \<open>The functions of package strings that the parsers call\<close>

definition NL :: string where
  "NL = [CHR 0x0A]"

definition HasPrefix :: "string \<Rightarrow> string \<Rightarrow> bool" where
  "HasPrefix s pre = (take (length pre) s = pre)"

fun Contains :: "string \<Rightarrow> string \<Rightarrow> bool" where
  "Contains [] substr = (substr = [])"
| "Contains (c # cs) substr = (HasPrefix (c # cs) substr \<or> Contains cs substr)"

text \<open>
  \<open>strings.Split(s, sep)\<close> for a separator that is not empty: the pieces between the
  non-overlapping occurrences of \<open>sep\<close>, found from the left. Every call in the program
  passes a literal separator (newline, one space, two spaces, colon); the empty separator,
  for which Go explodes the string into UTF-8 sequences, is not modelled beyond bytes.
\<close>

fun splitOn :: "char \<Rightarrow> string \<Rightarrow> string \<Rightarrow> string \<Rightarrow> string list" where
  "splitOn d ds acc [] = [rev acc]"
| "splitOn d ds acc (c # cs) =
     (if HasPrefix (c # cs) (d # ds)
      then rev acc # splitOn d ds [] (drop (length ds) cs)
      else splitOn d ds (c # acc) cs)"

definition Split :: "string \<Rightarrow> string \<Rightarrow> string list" where
  "Split s sep = (case sep of [] \<Rightarrow> map (\<lambda>c. [c]) s | d # ds \<Rightarrow> splitOn d ds [] s)"

text \<open>
  \<open>strings.Replace(s, old, new, n)\<close> for \<open>old\<close> not empty and \<open>n \<ge> 0\<close>: the first \<open>n\<close>
  non-overlapping occurrences are replaced.
\<close>

fun Replace :: "string \<Rightarrow> string \<Rightarrow> string \<Rightarrow> nat \<Rightarrow> string" where
  "Replace s old new 0 = s"
| "Replace [] old new (Suc n) = []"
| "Replace (c # cs) old new (Suc n) =
     (if HasPrefix (c # cs) old
      then new @ Replace (drop (length old) (c # cs)) old new n
      else c # Replace cs old new (Suc n))"

text \<open>
  \<open>strings.TrimSpace\<close> removes leading and trailing white space as \<open>unicode.IsSpace\<close>
  defines it. On the bytes of the string these are the UTF-8 encodings of
  U+0009..U+000D, U+0020, U+0085, U+00A0, U+1680, U+2000..U+200A, U+2028, U+2029,
  U+202F, U+205F and U+3000.
\<close>

definition spaceRunes :: "string list" where
  "spaceRunes =
     [[CHR 0x09], [CHR 0x0A], [CHR 0x0B], [CHR 0x0C], [CHR 0x0D], [CHR 0x20],
      [CHR 0xC2, CHR 0x85], [CHR 0xC2, CHR 0xA0],
      [CHR 0xE1, CHR 0x9A, CHR 0x80],
      [CHR 0xE2, CHR 0x80, CHR 0x80], [CHR 0xE2, CHR 0x80, CHR 0x81],
      [CHR 0xE2, CHR 0x80, CHR 0x82], [CHR 0xE2, CHR 0x80, CHR 0x83],
      [CHR 0xE2, CHR 0x80, CHR 0x84], [CHR 0xE2, CHR 0x80, CHR 0x85],
      [CHR 0xE2, CHR 0x80, CHR 0x86], [CHR 0xE2, CHR 0x80, CHR 0x87],
      [CHR 0xE2, CHR 0x80, CHR 0x88], [CHR 0xE2, CHR 0x80, CHR 0x89],
      [CHR 0xE2, CHR 0x80, CHR 0x8A],
      [CHR 0xE2, CHR 0x80, CHR 0xA8], [CHR 0xE2, CHR 0x80, CHR 0xA9],
      [CHR 0xE2, CHR 0x80, CHR 0xAF], [CHR 0xE2, CHR 0x81, CHR 0x9F],
      [CHR 0xE3, CHR 0x80, CHR 0x80]]"

definition leadingSpace :: "string \<Rightarrow> nat" where
  \<comment> \<open>the width in bytes of the white-space rune the string starts with, 0 when it starts with none\<close>
  "leadingSpace s =
     (case filter (\<lambda>e. take (length e) s = e) spaceRunes of [] \<Rightarrow> 0 | e # _ \<Rightarrow> length e)"

definition trailingSpace :: "string \<Rightarrow> nat" where
  \<comment> \<open>the width in bytes of the white-space rune the string ends with, 0 when it ends with none\<close>
  "trailingSpace s =
     (case filter (\<lambda>e. length e \<le> length s \<and> drop (length s - length e) s = e) spaceRunes of
        [] \<Rightarrow> 0 | e # _ \<Rightarrow> length e)"

lemma spaceRunes_nonempty: "e \<in> set spaceRunes \<Longrightarrow> e \<noteq> []"
  by (auto simp: spaceRunes_def)

lemma leadingSpace_le: "leadingSpace s \<noteq> 0 \<Longrightarrow> s \<noteq> []"
proof -
  assume a: "leadingSpace s \<noteq> 0"
  then obtain e es where f: "filter (\<lambda>e. take (length e) s = e) spaceRunes = e # es"
    by (auto simp: leadingSpace_def split: list.splits)
  then have "e \<in> set (filter (\<lambda>e. take (length e) s = e) spaceRunes)" by simp
  then have "e \<in> set spaceRunes" and t: "take (length e) s = e" by auto
  then have "e \<noteq> []" by (simp add: spaceRunes_nonempty)
  with t show "s \<noteq> []" by auto
qed

lemma trailingSpace_le: "trailingSpace s \<noteq> 0 \<Longrightarrow> s \<noteq> []"
proof -
  assume a: "trailingSpace s \<noteq> 0"
  then obtain e es where
    f: "filter (\<lambda>e. length e \<le> length s \<and> drop (length s - length e) s = e) spaceRunes = e # es"
    by (auto simp: trailingSpace_def split: list.splits)
  then have "e \<in> set (filter (\<lambda>e. length e \<le> length s \<and> drop (length s - length e) s = e) spaceRunes)"
    by simp
  then have "e \<in> set spaceRunes" and t: "length e \<le> length s" by auto
  then have "e \<noteq> []" by (simp add: spaceRunes_nonempty)
  with t show "s \<noteq> []" by auto
qed

function TrimLeftSpace :: "string \<Rightarrow> string" where
  "TrimLeftSpace s = (if leadingSpace s = 0 then s else TrimLeftSpace (drop (leadingSpace s) s))"
  by pat_completeness auto
termination
proof (relation "measure length")
  show "wf (measure length)" by simp
next
  fix s :: string
  assume "leadingSpace s \<noteq> 0"
  then show "(drop (leadingSpace s) s, s) \<in> measure length"
    using leadingSpace_le [of s] by (cases s) auto
qed

function TrimRightSpace :: "string \<Rightarrow> string" where
  "TrimRightSpace s =
     (if trailingSpace s = 0 then s else TrimRightSpace (take (length s - trailingSpace s) s))"
  by pat_completeness auto
termination
proof (relation "measure length")
  show "wf (measure length)" by simp
next
  fix s :: string
  assume "trailingSpace s \<noteq> 0"
  then show "(take (length s - trailingSpace s) s, s) \<in> measure length"
    using trailingSpace_le [of s] by (cases s) auto
qed

declare TrimLeftSpace.simps [simp del]
declare TrimRightSpace.simps [simp del]

definition TrimSpace :: "string \<Rightarrow> string" where
  "TrimSpace s = TrimRightSpace (TrimLeftSpace s)"


section \<open>strconv.Atoi\<close>

text \<open>
  \<open>strconv.Atoi\<close>: an optional sign, then decimal digits, at least one. Any other byte is
  a syntax error; a value outside the 64-bit range is a range error, reported as soon as
  the digits read so far leave the unsigned 64-bit range.
\<close>

datatype num_err = ErrSyntax | ErrRange

datatype go_error =
    NumError string string num_err
  | TimeParseError string string
  | SmbStatusUnexpectedResponseError string
  | OtherError string

definition isDigit :: "char \<Rightarrow> bool" where
  "isDigit c = (48 \<le> (of_char c :: int) \<and> (of_char c :: int) \<le> 57)"

fun parseUint :: "int \<Rightarrow> string \<Rightarrow> num_err + int" where
  "parseUint n [] = Inr n"
| "parseUint n (c # cs) =
     (if \<not> isDigit c then Inl ErrSyntax
      else if n \<ge> 18446744073709551615 div 10 + 1 then Inl ErrRange
      else if n * 10 + (of_char c - 48) > 18446744073709551615 then Inl ErrRange
      else parseUint (n * 10 + (of_char c - 48)) cs)"

definition Atoi :: "string \<Rightarrow> go_error + int" where
  "Atoi s =
     (let neg = (s \<noteq> [] \<and> hd s = CHR ''-'');
          s1 = (if s \<noteq> [] \<and> (hd s = CHR ''+'' \<or> hd s = CHR ''-'') then tl s else s)
      in if s1 = [] then Inl (NumError ''Atoi'' s ErrSyntax)
         else case parseUint 0 s1 of
                Inl e \<Rightarrow> Inl (NumError ''Atoi'' s e)
              | Inr un \<Rightarrow>
                  if \<not> neg \<and> un \<ge> 9223372036854775808 then Inl (NumError ''Atoi'' s ErrRange)
                  else if neg \<and> un > 9223372036854775808 then Inl (NumError ''Atoi'' s ErrRange)
                  else Inr (if neg then - un else un))"

section \<open>Time and the logger\<close>

text \<open>
  \<open>time.Time\<close> is the instant it denotes; the zero value of the type is instant 0.
  \<open>time.Parse\<close>, \<open>time.ParseInLocation\<close> with the local zone, and \<open>time.Now\<close> belong to
  the Go library and the machine the program runs on: the parsers take them as a parameter.
\<close>

datatype go_time = Instant int

definition zeroTime :: go_time where
  "zeroTime = Instant 0"

record time_env =
  ParseInLocation :: "string \<Rightarrow> string \<Rightarrow> go_error + go_time"
  Parse :: "string \<Rightarrow> string \<Rightarrow> go_error + go_time"
  Now :: go_time

definition ANSIC :: string where
  "ANSIC = ''Mon Jan _2 15:04:05 2006''"

text \<open>
  The logger writes lines to the standard streams. A run of a parser or of the collector
  returns the calls it made to the logger, in order, beside its result: \<open>WriteVerbose\<close>
  (printed only by a verbose logger), \<open>WriteErrorMessage\<close>, \<open>WriteError\<close> and
  \<open>WriteErrorWithAddition\<close>.
\<close>

datatype log_entry =
    Verbose string
  | ErrorMessage string
  | Error go_error
  | ErrorWithAddition go_error string

section \<open>Loop bodies\<close>

text \<open>
  One pass through the body of a \<open>for ... range\<close> loop of a parser ends in one of three
  ways: a panic, a \<open>continue\<close> after one line written to the logger, or an entry appended
  to the result.
\<close>

datatype 'a outcome = Panic panic | Continue log_entry | Next 'a

definition obind :: "'a outcome \<Rightarrow> ('a \<Rightarrow> 'b outcome) \<Rightarrow> 'b outcome" where
  "obind m f = (case m of Panic p \<Rightarrow> Panic p | Continue e \<Rightarrow> Continue e | Next x \<Rightarrow> f x)"

definition at :: "'a list \<Rightarrow> int \<Rightarrow> 'a outcome" where
  \<comment> \<open>\<open>xs[i]\<close> inside a loop body\<close>
  "at xs i = (case index xs i of Inl p \<Rightarrow> Panic p | Inr x \<Rightarrow> Next x)"

definition cutOut :: "'a list \<Rightarrow> int \<Rightarrow> int \<Rightarrow> 'a list outcome" where
  \<comment> \<open>\<open>xs[lo:hi]\<close> inside a loop body\<close>
  "cutOut xs lo hi = (case slice xs lo hi of Inl p \<Rightarrow> Panic p | Inr ys \<Rightarrow> Next ys)"

definition atoiOr :: "string \<Rightarrow> string \<Rightarrow> int outcome" where
  \<comment> \<open>\<open>v, err = strconv.Atoi(s); if err != nil { logger.WriteErrorWithAddition(err, addition); continue }\<close>\<close>
  "atoiOr s addition =
     (case Atoi s of Inl err \<Rightarrow> Continue (ErrorWithAddition err addition) | Inr v \<Rightarrow> Next v)"

fun rangeLoop ::
  "('row \<Rightarrow> 'a outcome) \<Rightarrow> 'row list \<Rightarrow> log_entry list \<times> 'a list \<Rightarrow> panic + (log_entry list \<times> 'a list)"
where
  "rangeLoop body [] st = Inr st"
| "rangeLoop body (r # rs) (lg, ret) =
     (case body r of
        Panic p \<Rightarrow> Inl p
      | Continue e \<Rightarrow> rangeLoop body rs (lg @ [e], ret)
      | Next x \<Rightarrow> rangeLoop body rs (lg, ret @ [x]))"

section \<open>Helpers of the parsers\<close>

definition getFieldMatrix :: "string list \<Rightarrow> string \<Rightarrow> string list list" where
  "getFieldMatrix dataLines separator =
     map (\<lambda>line. filter (\<lambda>trimmedField. trimmedField \<noteq> []) (map TrimSpace (Split line separator)))
       dataLines"

definition getFieldMatrixFixLength :: "string list \<Rightarrow> string \<Rightarrow> int \<Rightarrow> string list list" where
  "getFieldMatrixFixLength dataLines separator lineFields =
     filter (\<lambda>matrixLine. int (length matrixLine) = lineFields) (getFieldMatrix dataLines separator)"

definition joinFields :: "string list \<Rightarrow> string" where
  \<comment> \<open>\<open>s := ""; for _, part := range parts { s = fmt.Sprintf("%s %s", s, part) }\<close>\<close>
  "joinFields parts = foldl (\<lambda>s part. s @ '' '' @ part) [] parts"

definition tryGetTimeStampFromStrArr :: "time_env \<Rightarrow> string list \<Rightarrow> bool \<times> go_time" where
  "tryGetTimeStampFromStrArr env flds =
     (let timeStr = TrimSpace (joinFields flds) in
      case ParseInLocation env ANSIC timeStr of Inr ret \<Rightarrow> (True, ret) | Inl _ \<Rightarrow>
      (case Parse env ANSIC timeStr of Inr ret \<Rightarrow> (True, ret) | Inl _ \<Rightarrow>
      (case Parse env ''Mon Jan 02 03:04:05 PM 2006 MST'' timeStr of Inr ret \<Rightarrow> (True, ret) | Inl _ \<Rightarrow>
      (case Parse env ''Mon Jan 2 03:04:05 PM 2006 MST'' timeStr of Inr ret \<Rightarrow> (True, ret) | Inl _ \<Rightarrow>
      (case Parse env ''Mon Jan _2 15:04:05 2006 MST'' timeStr of Inr ret \<Rightarrow> (True, ret) | Inl _ \<Rightarrow>
      (case Parse env ''Mo Jan _2 15:04:05 2006 MST'' timeStr of Inr ret \<Rightarrow> (True, ret) | Inl _ \<Rightarrow>
      (False, Now env)))))))"

definition separatorPrefix :: string where
  "separatorPrefix = ''-----------------------------------------''"

fun findFrom :: "int \<Rightarrow> string list \<Rightarrow> int" where
  "findFrom i [] = - 1"
| "findFrom i (line # lines) =
     (if HasPrefix line separatorPrefix then i else findFrom (i + 1) lines)"

definition findSeperatorLineIndex :: "string list \<Rightarrow> int" where
  "findSeperatorLineIndex lines = findFrom 0 lines"

definition clusterPid :: "string \<Rightarrow> string \<Rightarrow> string \<Rightarrow> string \<Rightarrow> (int \<times> int) outcome" where
  \<comment> \<open>the identifier token, as every parser reads it: the pair (ClusterNodeId, PID). The three
      other arguments are the additions logged for a wrong node id, a wrong PID behind the
      colon, and a wrong PID without a colon.\<close>
  "clusterPid token addNode addPidColon addPid =
     (if Contains token '':''
      then (let pidFields = Split token '':'' in
            obind (at pidFields 0) (\<lambda>p0.
            obind (atoiOr p0 addNode) (\<lambda>node.
            obind (at pidFields 1) (\<lambda>p1.
            obind (atoiOr p1 addPidColon) (\<lambda>pid. Next (node, pid))))))
      else obind (atoiOr token addPid) (\<lambda>pid. Next (- 1, pid)))"


section \<open>GetLockData\<close>

record LockData =
  L_PID :: int
  L_ClusterNodeId :: int
  L_UserID :: int
  L_DenyMode :: string
  L_Access :: string
  L_AccessMode :: string
  L_Oplock :: string
  L_SharePath :: string
  L_Name :: string
  L_Time :: go_time

definition LockData_zero :: LockData where
  \<comment> \<open>\<open>var entry LockData\<close>\<close>
  "LockData_zero =
     \<lparr>L_PID = 0, L_ClusterNodeId = 0, L_UserID = 0, L_DenyMode = [], L_Access = [],
      L_AccessMode = [], L_Oplock = [], L_SharePath = [], L_Name = [], L_Time = zeroTime\<rparr>"

definition lockFixedColumns :: "LockData \<Rightarrow> string list \<Rightarrow> LockData outcome" where
  \<comment> \<open>the loop body of GetLockData up to \<open>entry.SharePath = fields[6]\<close>\<close>
  "lockFixedColumns entry flds =
     obind (at flds 0) (\<lambda>f0.
     obind (clusterPid f0 ''while getting LockData ClusterNodeId''
              ''while getting LockData PID (ClusterNodeId)'' ''while getting LockData PID'')
       (\<lambda>(node, pid).
     obind (at flds 1) (\<lambda>f1.
     obind (atoiOr f1 ''while getting LockData UserID'') (\<lambda>uid.
     obind (at flds 2) (\<lambda>f2.
     obind (at flds 3) (\<lambda>f3.
     obind (at flds 4) (\<lambda>f4.
     obind (at flds 5) (\<lambda>f5.
     obind (at flds 6) (\<lambda>f6.
       Next (entry\<lparr>L_ClusterNodeId := node, L_PID := pid, L_UserID := uid, L_DenyMode := f2,
                    L_Access := f3, L_AccessMode := f4, L_Oplock := f5, L_SharePath := f6\<rparr>))))))))))"

definition lockTimeStamp :: "time_env \<Rightarrow> string list \<Rightarrow> (go_time \<times> int) outcome" where
  \<comment> \<open>the two timestamp windows of the loop body: the time found and \<open>lastNameIndex\<close>, which
      stays \<open>- 1\<close> when neither window parses (the time is then never read)\<close>
  "lockTimeStamp env flds =
     (let fieldLength = int (length flds) in
      obind (cutOut flds (fieldLength - 5) fieldLength) (\<lambda>last5.
        case tryGetTimeStampFromStrArr env last5 of
          (True, connectTime) \<Rightarrow> Next (connectTime, fieldLength - 5)
        | (False, _) \<Rightarrow>
            obind (cutOut flds (fieldLength - 6) fieldLength) (\<lambda>last6.
              case tryGetTimeStampFromStrArr env last6 of
                (True, connectTime) \<Rightarrow> Next (connectTime, fieldLength - 6)
              | (False, connectTime) \<Rightarrow> Next (connectTime, - 1))))"

definition lockBody :: "time_env \<Rightarrow> string list \<Rightarrow> LockData \<Rightarrow> nat \<times> string list \<Rightarrow> LockData outcome" where
  \<comment> \<open>one pass of the loop of GetLockData: \<open>lines\<close> are all the lines of the input, \<open>i\<close>
      counts the rows from 0, \<open>entry\<close> is the fresh zero entry\<close>
  "lockBody env lines entry row =
     (case row of (i, flds) \<Rightarrow>
      obind (lockFixedColumns entry flds) (\<lambda>entry.
      obind (lockTimeStamp env flds) (\<lambda>(connectTime, lastNameIndex).
        if lastNameIndex = - 1
        then obind (at lines (int i)) (\<lambda>line.
               Continue (ErrorMessage
                 (''Not able to parse the time stamp in following LockData line: \"'' @ line @ ''\"'')))
        else if lastNameIndex \<le> 7
        then obind (at lines (int i)) (\<lambda>line.
               Continue (ErrorMessage
                 (''Not able to find the name in following LockData line: \"'' @ line @ ''\"'')))
        else obind (cutOut flds 7 lastNameIndex) (\<lambda>nameParts.
               Next (entry\<lparr>L_Time := connectTime, L_Name := TrimSpace (joinFields nameParts)\<rparr>)))))"

definition GetLockData :: "time_env \<Rightarrow> string \<Rightarrow> panic + (log_entry list \<times> LockData list)" where
  "GetLockData env data =
     (if TrimSpace data = ''No locked files'' then Inr ([], [])
      else
        let lines = Split data NL;
            sepLineIndex = findSeperatorLineIndex lines
        in if sepLineIndex < 1 then Inr ([], [])
           else
             pbind (slice lines (sepLineIndex - 1) sepLineIndex) (\<lambda>headerLines.
               let tableHeaderMatrix = getFieldMatrixFixLength headerLines ''  '' 9
               in if length tableHeaderMatrix \<noteq> 1 then Inr ([], [])
                  else
                    pbind (index tableHeaderMatrix 0) (\<lambda>tableHeaderFields.
                    pbind (index tableHeaderFields 0) (\<lambda>h0.
                      if h0 \<noteq> ''Pid'' then Inr ([], [])
                      else
                        pbind (index tableHeaderFields 5) (\<lambda>h5.
                          if h5 \<noteq> ''Oplock'' then Inr ([], [])
                          else
                            pbind (sliceFrom lines (sepLineIndex + 1)) (\<lambda>dataLines.
                              rangeLoop (lockBody env lines LockData_zero)
                                (enumerate 0 (getFieldMatrix dataLines '' '')) ([], [])))))))"


section \<open>GetShareData\<close>

record ShareData =
  S_Service :: string
  S_PID :: int
  S_ClusterNodeId :: int
  S_Machine :: string
  S_ConnectedAt :: go_time
  S_Encryption :: string
  S_Signing :: string

definition ShareData_zero :: ShareData where
  \<comment> \<open>\<open>var entry ShareData\<close>\<close>
  "ShareData_zero =
     \<lparr>S_Service = [], S_PID = 0, S_ClusterNodeId = 0, S_Machine = [], S_ConnectedAt = zeroTime,
      S_Encryption = [], S_Signing = []\<rparr>"

definition parseEither :: "time_env \<Rightarrow> string \<Rightarrow> string \<Rightarrow> string \<Rightarrow> string \<Rightarrow> go_time outcome" where
  \<comment> \<open>\<open>t, err = time.Parse(layout1, timeStr); if err != nil { t, err = time.Parse(layout2, timeStr);
      if err != nil { logger.WriteErrorWithAddition(err, addition); continue } }\<close>\<close>
  "parseEither env layout1 layout2 timeStr addition =
     (case Parse env layout1 timeStr of
        Inr t \<Rightarrow> Next t
      | Inl _ \<Rightarrow>
          (case Parse env layout2 timeStr of
             Inr t \<Rightarrow> Next t
           | Inl err \<Rightarrow> Continue (ErrorWithAddition err addition)))"

definition shareBody12 :: "time_env \<Rightarrow> ShareData \<Rightarrow> string list \<Rightarrow> ShareData outcome" where
  \<comment> \<open>normal mode, rows of 12 fields\<close>
  "shareBody12 env entry flds =
     obind (at flds 0) (\<lambda>f0.
     obind (at flds 1) (\<lambda>f1.
     obind (clusterPid f1 ''while getting ShareData ClusterNodeId (normal - c12 - with :)''
              ''while getting ShareData PID (normal - c12 - with :)''
              ''while getting ShareData PID (normal - c12 - without :)'')
       (\<lambda>(node, pid).
     obind (at flds 2) (\<lambda>f2.
     obind (at flds 3) (\<lambda>f3.
     obind (at flds 4) (\<lambda>f4.
     obind (at flds 5) (\<lambda>f5.
     obind (at flds 6) (\<lambda>f6.
     obind (at flds 7) (\<lambda>f7.
     obind (at flds 8) (\<lambda>f8.
     obind (at flds 9) (\<lambda>f9.
     obind (parseEither env ''Mon Jan 02 03:04:05 PM 2006 MST'' ''Mon Jan 2 03:04:05 PM 2006 MST''
              (f3 @ '' '' @ f4 @ '' '' @ f5 @ '' '' @ f6 @ '' '' @ f7 @ '' '' @ f8 @ '' '' @ f9)
              ''while getting ShareData ConnectedAt (normal - c12)'')
       (\<lambda>connectedAt.
     obind (at flds 10) (\<lambda>f10.
     obind (at flds 11) (\<lambda>f11.
       Next (entry\<lparr>S_Service := f0, S_ClusterNodeId := node, S_PID := pid, S_Machine := f2,
                    S_ConnectedAt := connectedAt, S_Encryption := f10,
                    S_Signing := f11\<rparr>)))))))))))))))"

definition shareBody11 :: "time_env \<Rightarrow> ShareData \<Rightarrow> string list \<Rightarrow> ShareData outcome" where
  \<comment> \<open>normal mode, rows of 11 fields\<close>
  "shareBody11 env entry flds =
     obind (at flds 0) (\<lambda>f0.
     obind (at flds 1) (\<lambda>f1.
     obind (clusterPid f1 ''while getting ShareData ClusterNodeId (normal - c11 - with :)''
              ''while getting ShareData PID (normal - c11 - with :)''
              ''while getting ShareData PID (normal - c11 - without :)'')
       (\<lambda>(node, pid).
     obind (at flds 2) (\<lambda>f2.
     obind (at flds 3) (\<lambda>f3.
     obind (at flds 4) (\<lambda>f4.
     obind (at flds 5) (\<lambda>f5.
     obind (at flds 6) (\<lambda>f6.
     obind (at flds 7) (\<lambda>f7.
     obind (at flds 8) (\<lambda>f8.
     obind (parseEither env ''Mon Jan _2 15:04:05 2006 MST'' ''Mo Jan _2 15:04:05 2006 MST''
              (f3 @ '' '' @ f4 @ '' '' @ f5 @ '' '' @ f6 @ '' '' @ f7 @ '' '' @ f8)
              ''while getting ShareData ConnectedAt (normal - c11)'')
       (\<lambda>connectedAt.
     obind (at flds 9) (\<lambda>f9.
     obind (at flds 10) (\<lambda>f10.
       Next (entry\<lparr>S_Service := f0, S_ClusterNodeId := node, S_PID := pid, S_Machine := f2,
                    S_ConnectedAt := connectedAt, S_Encryption := f9,
                    S_Signing := f10\<rparr>))))))))))))))"

definition shareBodyCluster :: "ShareData \<Rightarrow> string list \<Rightarrow> ShareData outcome" where
  \<comment> \<open>cluster mode, rows of 8 fields\<close>
  "shareBodyCluster entry flds =
     obind (at flds 0) (\<lambda>f0.
     obind (clusterPid f0 ''while getting ShareData ClusterNodeId (cluster - with :)''
              ''while getting ShareData PID (cluster - with :)''
              ''while getting ShareData PID (cluster - without :)'')
       (\<lambda>(node, pid).
     obind (at flds 3) (\<lambda>f3.
     obind (at flds 4) (\<lambda>f4.
     obind (at flds 6) (\<lambda>f6.
     obind (at flds 7) (\<lambda>f7.
       Next (entry\<lparr>S_ClusterNodeId := node, S_PID := pid, S_Machine := f3 @ '' '' @ f4,
                    S_Encryption := f6, S_Signing := f7\<rparr>)))))))"

definition shareRunningMode :: "string list \<Rightarrow> panic + string" where
  \<comment> \<open>the two tests on the header fields that set \<open>runningMode\<close>\<close>
  "shareRunningMode tableHeaderFields =
     pbind (index tableHeaderFields 0) (\<lambda>h0.
     pbind (if h0 = ''Service''
            then pbind (index tableHeaderFields 3) (\<lambda>h3.
                   Inr (if h3 = ''Connected at'' then ''normal'' else ''none''))
            else Inr ''none'') (\<lambda>runningMode.
       if h0 = ''PID''
       then pbind (index tableHeaderFields 4) (\<lambda>h4.
              Inr (if h4 = ''Protocol Version'' then ''cluster'' else runningMode))
       else Inr runningMode))"

definition shareHeader :: "string list \<Rightarrow> string list list" where
  \<comment> \<open>the header matrix: 6 fields in a normal setup, else 7 fields as a cluster prints\<close>
  "shareHeader headerLines =
     (let tableHeaderMatrix = getFieldMatrixFixLength headerLines ''  '' 6
      in if length tableHeaderMatrix \<noteq> 1
         then getFieldMatrixFixLength headerLines ''  '' 7
         else tableHeaderMatrix)"

definition GetShareData :: "time_env \<Rightarrow> string \<Rightarrow> panic + (log_entry list \<times> ShareData list)" where
  "GetShareData env data =
     (let lines = Split data NL;
          sepLineIndex = findSeperatorLineIndex lines
      in if sepLineIndex < 1 then Inr ([], [])
         else
           pbind (slice lines (sepLineIndex - 1) sepLineIndex) (\<lambda>headerLines.
             let tableHeaderMatrix = shareHeader headerLines
             in if length tableHeaderMatrix \<noteq> 1 then Inr ([], [])
                else
                  pbind (index tableHeaderMatrix 0) (\<lambda>tableHeaderFields.
                  pbind (shareRunningMode tableHeaderFields) (\<lambda>runningMode.
                  pbind (sliceFrom lines (sepLineIndex + 1)) (\<lambda>dataLines.
                    if runningMode = ''normal''
                    then (let fieldMatrix = getFieldMatrixFixLength dataLines '' '' 12
                          in if fieldMatrix \<noteq> []
                             then rangeLoop (shareBody12 env ShareData_zero) fieldMatrix ([], [])
                             else (let fieldMatrix = getFieldMatrixFixLength dataLines '' '' 11
                                   in if fieldMatrix \<noteq> []
                                      then rangeLoop (shareBody11 env ShareData_zero) fieldMatrix ([], [])
                                      else Inr ([], [])))
                    else if runningMode = ''cluster''
                    then (let fieldMatrix = getFieldMatrixFixLength dataLines '' '' 8
                          in if fieldMatrix \<noteq> []
                             then rangeLoop (shareBodyCluster ShareData_zero) fieldMatrix ([], [])
                             else Inr ([], []))
                    else Inr ([], []))))))"

section \<open>GetProcessData\<close>

record ProcessData =
  P_PID :: int
  P_ClusterNodeId :: int
  P_UserID :: int
  P_GroupID :: int
  P_Machine :: string
  P_ProtocolVersion :: string
  P_Encryption :: string
  P_Signing :: string
  P_SambaVersion :: string

definition ProcessData_zero :: ProcessData where
  \<comment> \<open>\<open>var entry ProcessData\<close>\<close>
  "ProcessData_zero =
     \<lparr>P_PID = 0, P_ClusterNodeId = 0, P_UserID = 0, P_GroupID = 0, P_Machine = [],
      P_ProtocolVersion = [], P_Encryption = [], P_Signing = [], P_SambaVersion = []\<rparr>"

definition processBody :: "string \<Rightarrow> ProcessData \<Rightarrow> string list \<Rightarrow> ProcessData outcome" where
  "processBody sambaVersion entry flds =
     obind (at flds 0) (\<lambda>f0.
     obind (clusterPid f0 ''while getting ProcessData ClusterNodeId''
              ''while getting ProcessData PID (with :)'' ''while getting ProcessData PID (without :)'')
       (\<lambda>(node, pid).
     obind (at flds 1) (\<lambda>f1.
     obind (if f1 = ''nobody'' then Next (- 1)
            else atoiOr f1 ''while getting ProcessData UserID'') (\<lambda>uid.
     obind (at flds 2) (\<lambda>f2.
     obind (if f2 = ''nogroup'' then Next (- 1)
            else atoiOr f2 ''while getting ProcessData GroupID'') (\<lambda>gid.
     obind (at flds 3) (\<lambda>f3.
     obind (at flds 4) (\<lambda>f4.
     obind (at flds 5) (\<lambda>f5.
     obind (at flds 6) (\<lambda>f6.
     obind (at flds 7) (\<lambda>f7.
       Next (entry\<lparr>P_ClusterNodeId := node, P_PID := pid, P_UserID := uid, P_GroupID := gid,
                    P_Machine := f3 @ '' '' @ f4, P_ProtocolVersion := f5, P_Encryption := f6,
                    P_Signing := f7, P_SambaVersion := sambaVersion\<rparr>))))))))))))"

definition GetProcessData :: "string \<Rightarrow> panic + (log_entry list \<times> ProcessData list)" where
  "GetProcessData data =
     (let lines = Split data NL;
          sepLineIndex = findSeperatorLineIndex lines
      in if sepLineIndex < 2 then Inr ([], [])
         else
           pbind (slice lines (sepLineIndex - 2) (sepLineIndex - 1)) (\<lambda>versionLines.
           pbind (index versionLines 0) (\<lambda>sambaVersionLine.
             if \<not> HasPrefix sambaVersionLine ''Samba version'' then Inr ([], [])
             else
               let sambaVersion = TrimSpace (Replace sambaVersionLine ''Samba version'' [] 1)
               in pbind (slice lines (sepLineIndex - 1) sepLineIndex) (\<lambda>headerLines.
                    let tableHeaderMatrix = getFieldMatrixFixLength headerLines ''  '' 7
                    in if length tableHeaderMatrix \<noteq> 1 then Inr ([], [])
                       else
                         pbind (index tableHeaderMatrix 0) (\<lambda>tableHeaderFields.
                         pbind (index tableHeaderFields 1) (\<lambda>h1.
                           if h1 \<noteq> ''Username'' then Inr ([], [])
                           else
                             pbind (index tableHeaderFields 4) (\<lambda>h4.
                               if h4 \<noteq> ''Protocol Version'' then Inr ([], [])
                               else
                                 pbind (sliceFrom lines (sepLineIndex + 1)) (\<lambda>dataLines.
                                   rangeLoop (processBody sambaVersion ProcessData_zero)
                                     (getFieldMatrixFixLength dataLines '' '' 8) ([], [])))))))))"

section \<open>The exporter: Collect\<close>

text \<open>
  Modelled from the spec: the statistics type of package statisticsGenerator, which is not
  among the sources. The specification's metric sample has a name, a help text and a numeric
  value, and Collect reads the fields \<open>Name\<close> and \<open>Value\<close>. What the request to
  samba_statusd and the aggregation return is an argument of \<open>Collect\<close>.

  The descriptors and metrics are those of the Prometheus client library. A descriptor is
  what \<open>prometheus.NewDesc\<close> returns, with the error it records for a wrong name; its zero
  value is what a Go map returns for a key it does not hold.
  \<open>prometheus.MustNewConstMetric\<close> panics on a descriptor that carries an error or whose
  label count differs from the number of label values given, and returns the metric
  otherwise. The value of a metric is \<open>float64(stat.Value)\<close>, kept as the integer it
  converts.
\<close>

record StatisticsValue =
  Name :: string
  Help :: string
  Value :: int

record Desc =
  D_fqName :: string
  D_help :: string
  D_variableLabels :: "string list"
  D_err :: "go_error option"

definition Desc_zero :: Desc where
  "Desc_zero = \<lparr>D_fqName = [], D_help = [], D_variableLabels = [], D_err = None\<rparr>"

record Metric =
  desc :: Desc
  val :: int

definition MustNewConstMetric :: "Desc \<Rightarrow> int \<Rightarrow> string list \<Rightarrow> panic + Metric" where
  "MustNewConstMetric d v labelValues =
     (if D_err d \<noteq> None then Inl MetricPanic
      else if length labelValues \<noteq> length (D_variableLabels d) then Inl MetricPanic
      else Inr \<lparr>desc = d, val = v\<rparr>)"

fun collectLoop ::
  "(string \<rightharpoonup> Desc) \<Rightarrow> StatisticsValue list \<Rightarrow> log_entry list \<times> Metric list \<Rightarrow>
     panic + (log_entry list \<times> Metric list)"
where
  "collectLoop Descriptions [] st = Inr st"
| "collectLoop Descriptions (stat # stats) (lg, ch) =
     (let (d, found) = (case Descriptions (Name stat) of None \<Rightarrow> (Desc_zero, False)
                        | Some d \<Rightarrow> (d, True));
          lg = (if found = False
                then lg @ [ErrorMessage (''No description found for '' @ Name stat)] else lg)
      in case MustNewConstMetric d (Value stat) [] of
           Inl p \<Rightarrow> Inl p
         | Inr met \<Rightarrow> collectLoop Descriptions stats (lg, ch @ [met]))"

definition Collect ::
  "(string \<rightharpoonup> Desc) \<Rightarrow> go_error + StatisticsValue list option \<Rightarrow> panic + (log_entry list \<times> Metric list)"
where
  \<comment> \<open>the second argument is what the request to samba_statusd and the aggregation gave: the error
      of \<open>GetSambaStatus\<close>, or the statistics, \<open>None\<close> for a nil slice. The result is the lines
      logged and the metrics sent on the channel.\<close>
  "Collect Descriptions response =
     (let lg = [Verbose ''Request samba_statusd to get prometheus metrics'']
      in case response of
           Inl errGet \<Rightarrow> Inr (lg @ [Error errGet], [])
         | Inr stats \<Rightarrow>
             (let lg = lg @ [Verbose ''Handle samba_statusd response and set prometheus metrics'']
              in case stats of
                   None \<Rightarrow>
                     Inr (lg @ [Error (SmbStatusUnexpectedResponseError
                                         ''Empty response from samba_statusd'')], [])
                 | Some stats \<Rightarrow> collectLoop Descriptions stats (lg, [])))"


section \<open>What a loop appends and logs\<close>

definition appended :: "('row \<Rightarrow> 'a outcome) \<Rightarrow> 'row list \<Rightarrow> 'a list" where
  \<comment> \<open>the entries of the rows whose pass reaches the \<open>append\<close>\<close>
  "appended body rows = concat (map (\<lambda>r. case body r of Next x \<Rightarrow> [x] | _ \<Rightarrow> []) rows)"

definition logged :: "('row \<Rightarrow> 'a outcome) \<Rightarrow> 'row list \<Rightarrow> log_entry list" where
  \<comment> \<open>the lines of the rows whose pass ends in \<open>continue\<close>\<close>
  "logged body rows = concat (map (\<lambda>r. case body r of Continue e \<Rightarrow> [e] | _ \<Rightarrow> []) rows)"

section \<open>Sample tables\<close>

definition sampleLockHeader :: string where
  "sampleLockHeader =
     ''Pid          User(ID)   DenyMode   Access      R/W        Oplock           SharePath   Name   Time''"

definition sampleSeparator :: string where
  "sampleSeparator =
     ''--------------------------------------------------------------------------------------------------''"

section \<open>Table shapes, in the words of the specification\<close>

text \<open>
  The header is the line above the separator, split on two spaces into trimmed tokens that
  are not empty; the banner is the line above the header. A table shape is known when the
  header has the expected number of fields and the expected names at the expected places.
\<close>

definition tokens :: "string \<Rightarrow> string \<Rightarrow> string list" where
  "tokens line separator = filter (\<lambda>f. f \<noteq> []) (map TrimSpace (Split line separator))"

definition headerFields :: "string \<Rightarrow> string list option" where
  "headerFields data =
     (let lines = Split data NL; sepLineIndex = findSeperatorLineIndex lines
      in if sepLineIndex < 1 then None
         else Some (tokens (lines ! nat (sepLineIndex - 1)) ''  ''))"

definition bannerLine :: "string \<Rightarrow> string option" where
  "bannerLine data =
     (let lines = Split data NL; sepLineIndex = findSeperatorLineIndex lines
      in if sepLineIndex < 2 then None else Some (lines ! nat (sepLineIndex - 2)))"

definition lockHeaderKnown :: "string list \<Rightarrow> bool" where
  "lockHeaderKnown h = (length h = 9 \<and> h ! 0 = ''Pid'' \<and> h ! 5 = ''Oplock'')"

definition shareHeaderKnown :: "string list \<Rightarrow> bool" where
  "shareHeaderKnown h =
     ((length h = 6 \<or> length h = 7) \<and>
      (h ! 0 = ''Service'' \<and> h ! 3 = ''Connected at'' \<or> h ! 0 = ''PID'' \<and> h ! 4 = ''Protocol Version''))"

definition processHeaderKnown :: "string list \<Rightarrow> bool" where
  "processHeaderKnown h = (length h = 7 \<and> h ! 1 = ''Username'' \<and> h ! 4 = ''Protocol Version'')"

definition lockShapeKnown :: "string \<Rightarrow> bool" where
  "lockShapeKnown data = (case headerFields data of None \<Rightarrow> False | Some h \<Rightarrow> lockHeaderKnown h)"

definition shareShapeKnown :: "string \<Rightarrow> bool" where
  "shareShapeKnown data = (case headerFields data of None \<Rightarrow> False | Some h \<Rightarrow> shareHeaderKnown h)"

definition processShapeKnown :: "string \<Rightarrow> bool" where
  "processShapeKnown data =
     ((case bannerLine data of None \<Rightarrow> False | Some b \<Rightarrow> HasPrefix b ''Samba version'') \<and>
      (case headerFields data of None \<Rightarrow> False | Some h \<Rightarrow> processHeaderKnown h))"

section \<open>Sample rows, and tables that are not recognised\<close>

definition sampleLockRow :: string where
  "sampleLockRow = ''1234 0 DENY_NONE RDONLY NONE - /srv/share file.txt Mon Jan 2 15:04:05 2006''"

definition sampleShareHeader :: string where
  "sampleShareHeader =
     ''Service      pid     Machine       Connected at                     Encryption   Signing''"

definition sampleShareRow :: string where
  "sampleShareRow =
     ''IPC$         1119    192.168.1.242 Thu Mar 25 07:42:02 PM 2021 CET  -            -''"

definition sampleBanner :: string where
  "sampleBanner = ''Samba version 4.11.6-Ubuntu''"

definition sampleProcessHeader :: string where
  "sampleProcessHeader =
     ''PID     Username     Group        Machine                                   Protocol Version  Encryption           Signing''"

definition sampleProcessRow :: string where
  "sampleProcessRow =
     ''1117    1080         117          192.168.1.242 (ipv4:192.168.1.242:42296)  SMB3_11           -                    partial(AES-128-CMAC)''"

definition sampleEnv :: time_env where
  \<comment> \<open>a clock for the samples: it parses the time stamps of the sample rows and nothing else\<close>
  "sampleEnv =
     \<lparr>ParseInLocation =
        (\<lambda>layout v. if layout = ANSIC \<and> v = ''Mon Jan 2 15:04:05 2006''
                     then Inr (Instant 1136214245) else Inl (TimeParseError layout v)),
      Parse =
        (\<lambda>layout v. if layout = ''Mon Jan 02 03:04:05 PM 2006 MST'' \<and> v = ''Thu Mar 25 07:42:02 PM 2021 CET''
                     then Inr (Instant 1616701322)
                     else if layout = ''Mon Jan _2 15:04:05 2006 MST'' \<and> v = ''Mon Jan 2 15:04:05 2006 CET''
                     then Inr (Instant 1136210645)
                     else Inl (TimeParseError layout v)),
      Now = Instant 1700000000\<rparr>"

definition misheadedLockTable :: string where
  \<comment> \<open>the first column is labelled PID, not Pid\<close>
  "misheadedLockTable =
     ''PID          User(ID)   DenyMode   Access      R/W        Oplock           SharePath   Name   Time''
       @ NL @ sampleSeparator @ NL @ sampleLockRow"

definition misheadedShareTable :: string where
  \<comment> \<open>the first column is labelled Share, not Service\<close>
  "misheadedShareTable =
     ''Share        pid     Machine       Connected at                     Encryption   Signing''
       @ NL @ sampleSeparator @ NL @ sampleShareRow"

definition bannerlessProcessTable :: string where
  \<comment> \<open>the line above the header is empty\<close>
  "bannerlessProcessTable =
     NL @ sampleProcessHeader @ NL @ sampleSeparator @ NL @ sampleProcessRow"

definition shortDashTable :: string where
  \<comment> \<open>a locks table whose dash row has 40 dashes\<close>
  "shortDashTable =
     sampleLockHeader @ NL @ replicate 40 (CHR ''-'') @ NL @ sampleLockRow"

section \<open>Rows, in the words of the specification\<close>

text \<open>
  The data rows are the lines after the separator, each split on single spaces into trimmed
  tokens that are not empty.
\<close>

definition dataRows :: "string \<Rightarrow> string list list" where
  "dataRows data =
     (let lines = Split data NL; sepLineIndex = findSeperatorLineIndex lines
      in getFieldMatrix (drop (nat (sepLineIndex + 1)) lines) '' '')"

definition rowsOfLength :: "nat \<Rightarrow> string \<Rightarrow> string list list" where
  "rowsOfLength n data = filter (\<lambda>flds. length flds = n) (dataRows data)"

definition sambaVersionOf :: "string \<Rightarrow> string" where
  "sambaVersionOf data =
     (case bannerLine data of None \<Rightarrow> [] | Some b \<Rightarrow> TrimSpace (Replace b ''Samba version'' [] 1))"

definition clusterHeader :: "string \<Rightarrow> bool" where
  "clusterHeader data =
     (case headerFields data of None \<Rightarrow> False
      | Some h \<Rightarrow> h ! 0 = ''PID'' \<and> h ! 4 = ''Protocol Version'')"

section \<open>The cluster node id, in the words of the specification\<close>

text \<open>
  What the identifier token says about the node id: without a colon it is \<open>- 1\<close>; with a
  colon it is the number before the first colon, negative only when the token starts with a
  minus sign.
\<close>

definition nodeIdFromToken :: "string \<Rightarrow> int \<Rightarrow> bool" where
  "nodeIdFromToken tok node =
     (if Contains tok '':''
      then Atoi (Split tok '':'' ! 0) = Inr node \<and> (node < 0 \<longrightarrow> HasPrefix tok ''-'')
      else node = - 1)"

section \<open>Sample tables with their rows\<close>

definition sampleLockTable :: string where
  "sampleLockTable = sampleLockHeader @ NL @ sampleSeparator @ NL @ sampleLockRow"

definition sampleShareTable :: string where
  "sampleShareTable = sampleShareHeader @ NL @ sampleSeparator @ NL @ sampleShareRow"

definition sampleProcessTable :: string where
  "sampleProcessTable =
     sampleBanner @ NL @ sampleProcessHeader @ NL @ sampleSeparator @ NL @ sampleProcessRow"

definition sampleClusterRow :: string where
  "sampleClusterRow =
     ''2:1117  nobody       nogroup      192.168.1.242 (ipv4:192.168.1.242:42296)  SMB3_11           -                    -''"

definition sampleClusterShareTable :: string where
  \<comment> \<open>what GetShareData takes as cluster mode: the header starts with PID and has Protocol Version fifth\<close>
  "sampleClusterShareTable = sampleProcessHeader @ NL @ sampleSeparator @ NL @ sampleClusterRow"

definition sampleClusterProcessTable :: string where
  "sampleClusterProcessTable =
     sampleBanner @ NL @ sampleProcessHeader @ NL @ sampleSeparator @ NL @ sampleClusterRow"

definition negativeNodeProcessTable :: string where
  \<comment> \<open>a process table whose identifier token has a negative number before the colon\<close>
  "negativeNodeProcessTable =
     sampleBanner @ NL @ sampleProcessHeader @ NL @ sampleSeparator @ NL @
     ''-5:1117 1080         117          192.168.1.242 (ipv4:192.168.1.242:42296)  SMB3_11           -                    -''"

definition sampleLockRecord :: LockData where
  "sampleLockRecord =
     \<lparr>L_PID = 1234, L_ClusterNodeId = - 1, L_UserID = 0, L_DenyMode = ''DENY_NONE'',
      L_Access = ''RDONLY'', L_AccessMode = ''NONE'', L_Oplock = ''-'',
      L_SharePath = ''/srv/share'', L_Name = ''file.txt'', L_Time = Instant 1136214245\<rparr>"

definition sampleShareRecord :: ShareData where
  "sampleShareRecord =
     \<lparr>S_Service = ''IPC$'', S_PID = 1119, S_ClusterNodeId = - 1, S_Machine = ''192.168.1.242'',
      S_ConnectedAt = Instant 1616701322, S_Encryption = ''-'', S_Signing = ''-''\<rparr>"

definition sampleProcessRecord :: ProcessData where
  "sampleProcessRecord =
     \<lparr>P_PID = 1117, P_ClusterNodeId = - 1, P_UserID = 1080, P_GroupID = 117,
      P_Machine = ''192.168.1.242 (ipv4:192.168.1.242:42296)'', P_ProtocolVersion = ''SMB3_11'',
      P_Encryption = ''-'', P_Signing = ''partial(AES-128-CMAC)'',
      P_SambaVersion = ''4.11.6-Ubuntu''\<rparr>"

definition sampleClusterShareRecord :: ShareData where
  "sampleClusterShareRecord =
     \<lparr>S_Service = [], S_PID = 1117, S_ClusterNodeId = 2,
      S_Machine = ''192.168.1.242 (ipv4:192.168.1.242:42296)'', S_ConnectedAt = zeroTime,
      S_Encryption = ''-'', S_Signing = ''-''\<rparr>"

definition sampleClusterProcessRecord :: ProcessData where
  "sampleClusterProcessRecord =
     \<lparr>P_PID = 1117, P_ClusterNodeId = 2, P_UserID = - 1, P_GroupID = - 1,
      P_Machine = ''192.168.1.242 (ipv4:192.168.1.242:42296)'', P_ProtocolVersion = ''SMB3_11'',
      P_Encryption = ''-'', P_Signing = ''-'', P_SambaVersion = ''4.11.6-Ubuntu''\<rparr>"

definition skippedUserProcessTable :: string where
  \<comment> \<open>a process table whose first row names the user alice, followed by the sample row\<close>
  "skippedUserProcessTable =
     sampleBanner @ NL @ sampleProcessHeader @ NL @ sampleSeparator @ NL @
     ''1116    alice        117          192.168.1.242 (ipv4:192.168.1.242:42296)  SMB3_11           -                    -''
     @ NL @ sampleProcessRow"

section \<open>The time stamp of a lock row, in the words of the specification\<close>

text \<open>
  The known patterns are tried in order on the string rebuilt from a window of tokens, the
  first that parses wins. The tokens strictly between two indices are those the claim C6
  names for the Name field; \<open>fromTo\<close> are the tokens from the first index up to, not
  including, the second.
\<close>

definition timeStampAttempts :: "time_env \<Rightarrow> string \<Rightarrow> (go_error + go_time) list" where
  "timeStampAttempts env timeStr =
     [ParseInLocation env ANSIC timeStr,
      Parse env ANSIC timeStr,
      Parse env ''Mon Jan 02 03:04:05 PM 2006 MST'' timeStr,
      Parse env ''Mon Jan 2 03:04:05 PM 2006 MST'' timeStr,
      Parse env ''Mon Jan _2 15:04:05 2006 MST'' timeStr,
      Parse env ''Mo Jan _2 15:04:05 2006 MST'' timeStr]"

fun firstMatch :: "(go_error + go_time) list \<Rightarrow> go_time option" where
  "firstMatch [] = None"
| "firstMatch (Inr t # _) = Some t"
| "firstMatch (Inl _ # attempts) = firstMatch attempts"

definition lastTokens :: "nat \<Rightarrow> string list \<Rightarrow> string list" where
  "lastTokens k flds = drop (length flds - k) flds"

definition fromTo :: "nat \<Rightarrow> nat \<Rightarrow> string list \<Rightarrow> string list" where
  "fromTo lo hi flds = take (hi - lo) (drop lo flds)"

definition strictlyBetween :: "nat \<Rightarrow> nat \<Rightarrow> string list \<Rightarrow> string list" where
  "strictlyBetween lo hi flds = take (hi - lo - 1) (drop (lo + 1) flds)"

definition nameMissing :: "string \<Rightarrow> log_entry" where
  "nameMissing line =
     ErrorMessage (''Not able to find the name in following LockData line: \"'' @ line @ ''\"'')"

definition timeStampMissing :: "string \<Rightarrow> log_entry" where
  "timeStampMissing line =
     ErrorMessage (''Not able to parse the time stamp in following LockData line: \"'' @ line @ ''\"'')"

definition sampleLockTokens :: "string list" where
  "sampleLockTokens =
     [''1234'', ''0'', ''DENY_NONE'', ''RDONLY'', ''NONE'', ''-'', ''/srv/share'', ''file.txt'',
      ''Mon'', ''Jan'', ''2'', ''15:04:05'', ''2006'']"

definition sampleLockTokens6 :: "string list" where
  \<comment> \<open>a row whose time stamp takes six tokens and whose name takes two\<close>
  "sampleLockTokens6 =
     [''1234'', ''0'', ''DENY_NONE'', ''RDONLY'', ''NONE'', ''-'', ''/srv/share'', ''my'', ''file.txt'',
      ''Mon'', ''Jan'', ''2'', ''15:04:05'', ''2006'', ''CET'']"

definition sampleLockTokensNoTime :: "string list" where
  \<comment> \<open>a row that ends in no time stamp\<close>
  "sampleLockTokensNoTime =
     [''1234'', ''0'', ''DENY_NONE'', ''RDONLY'', ''NONE'', ''-'', ''/srv/share'', ''file.txt'',
      ''some'', ''day'', ''last'', ''week'']"

definition sampleFixedColumns :: LockData where
  \<comment> \<open>the entry of the sample rows after the fixed columns\<close>
  "sampleFixedColumns =
     \<lparr>L_PID = 1234, L_ClusterNodeId = - 1, L_UserID = 0, L_DenyMode = ''DENY_NONE'',
      L_Access = ''RDONLY'', L_AccessMode = ''NONE'', L_Oplock = ''-'',
      L_SharePath = ''/srv/share'', L_Name = [], L_Time = zeroTime\<rparr>"

section \<open>The time text of a share row, and the tokens of the sample rows\<close>







section \<open>Properties of the helpers\<close>

lemma rangeLoop_Inr:
  "rangeLoop body rows (lg, ret) = Inr (lg', ret') \<Longrightarrow>
     lg' = lg @ logged body rows \<and> ret' = ret @ appended body rows"
proof (induction rows arbitrary: lg ret)
  case Nil
  then show ?case by (simp add: logged_def appended_def)
next
  case (Cons r rs)
  show ?case
  proof (cases "body r")
    case (Panic p)
    with Cons.prems show ?thesis by simp
  next
    case (Continue e)
    with Cons.prems have "rangeLoop body rs (lg @ [e], ret) = Inr (lg', ret')" by simp
    from Cons.IH [OF this] Continue show ?thesis by (simp add: logged_def appended_def)
  next
    case (Next x)
    with Cons.prems have "rangeLoop body rs (lg, ret @ [x]) = Inr (lg', ret')" by simp
    from Cons.IH [OF this] Next show ?thesis by (simp add: logged_def appended_def)
  qed
qed

lemma rangeLoop_total:
  "(\<And>r p. r \<in> set rows \<Longrightarrow> body r \<noteq> Panic p) \<Longrightarrow>
     rangeLoop body rows (lg, ret) = Inr (lg @ logged body rows, ret @ appended body rows)"
proof (induction rows arbitrary: lg ret)
  case Nil
  then show ?case by (simp add: logged_def appended_def)
next
  case (Cons r rs)
  have ih: "\<And>lg ret. rangeLoop body rs (lg, ret) = Inr (lg @ logged body rs, ret @ appended body rs)"
    using Cons.IH Cons.prems by simp
  show ?case
  proof (cases "body r")
    case (Panic p)
    with Cons.prems [of r p] show ?thesis by simp
  next
    case (Continue e)
    then show ?thesis by (simp add: ih logged_def appended_def)
  next
    case (Next x)
    then show ?thesis by (simp add: ih logged_def appended_def)
  qed
qed

lemma appended_mem:
  "r \<in> set (appended body rows) \<Longrightarrow> \<exists>row \<in> set rows. body row = Next r"
  by (auto simp: appended_def split: outcome.splits)

lemma Contains_char: "Contains s [c] \<longleftrightarrow> c \<in> set s"
  by (induction s) (auto simp: HasPrefix_def)

lemma splitOn_nonempty: "splitOn d ds acc s \<noteq> []"
  by (induction d ds acc s rule: splitOn.induct) auto

lemma splitOn_char_notin:
  "c \<notin> set s \<Longrightarrow> splitOn c [] acc s = [rev acc @ s]"
  by (induction s arbitrary: acc) (auto simp: HasPrefix_def)

lemma splitOn_char_append:
  "c \<notin> set a \<Longrightarrow> splitOn c [] acc (a @ c # b) = (rev acc @ a) # splitOn c [] [] b"
  by (induction a arbitrary: acc) (auto simp: HasPrefix_def)

lemma Split_char_notin: "c \<notin> set s \<Longrightarrow> Split s [c] = [s]"
  by (simp add: Split_def splitOn_char_notin)

lemma Split_char_append: "c \<notin> set a \<Longrightarrow> Split (a @ c # b) [c] = a # Split b [c]"
  by (simp add: Split_def splitOn_char_append)

lemma Split_char_in: "c \<in> set s \<Longrightarrow> \<exists>a b. c \<notin> set a \<and> s = a @ c # b \<and> Split s [c] = a # Split b [c]"
proof -
  assume "c \<in> set s"
  then obtain a b where s: "s = a @ c # b" and a: "c \<notin> set a"
    by (auto dest: split_list_first)
  then show ?thesis using Split_char_append [OF a, of b] by blast
qed

lemma Split_char_length: "c \<in> set s \<Longrightarrow> 2 \<le> length (Split s [c])"
proof -
  assume "c \<in> set s"
  then obtain a b where "Split s [c] = a # Split b [c]" using Split_char_in by blast
  moreover have "Split b [c] \<noteq> []" by (simp add: Split_def splitOn_nonempty)
  ultimately show ?thesis by (cases "Split b [c]") auto
qed

lemma obind_simps [simp]:
  "obind (Next x) f = f x" "obind (Continue e) f = Continue e" "obind (Panic p) f = Panic p"
  by (simp_all add: obind_def)

lemma obind_Panic_iff:
  "obind m f = Panic p \<longleftrightarrow> m = Panic p \<or> (\<exists>x. m = Next x \<and> f x = Panic p)"
  by (cases m) (auto simp: obind_def)

lemma atoiOr_no_panic: "atoiOr s a \<noteq> Panic p"
  by (auto simp: atoiOr_def split: sum.splits)

lemma at_no_panic: "0 \<le> i \<Longrightarrow> i < int (length xs) \<Longrightarrow> at xs i = Next (xs ! nat i)"
  by (simp add: at_def index_def)

lemma clusterPid_no_panic: "clusterPid tok a b c \<noteq> Panic p"
proof (cases "Contains tok '':''")
  case True
  then have "CHR '':'' \<in> set tok" by (simp add: Contains_char)
  then have "2 \<le> length (Split tok '':'')" by (rule Split_char_length)
  then have "at (Split tok '':'') 0 = Next (Split tok '':'' ! 0)"
    and "at (Split tok '':'') 1 = Next (Split tok '':'' ! 1)"
    by (auto simp: at_def index_def)
  with True show ?thesis
    by (auto simp: clusterPid_def Let_def obind_Panic_iff atoiOr_no_panic)
next
  case False
  then show ?thesis by (simp add: clusterPid_def obind_Panic_iff atoiOr_no_panic)
qed


lemma findFrom_range: "findFrom i ls = - 1 \<or> (i \<le> findFrom i ls \<and> findFrom i ls < i + int (length ls))"
  by (induction ls arbitrary: i) (auto, force+)

lemma findFrom_none:
  "0 \<le> i \<Longrightarrow> findFrom i ls = - 1 \<longleftrightarrow> (\<forall>l \<in> set ls. \<not> HasPrefix l separatorPrefix)"
proof (induction ls arbitrary: i)
  case Nil
  then show ?case by simp
next
  case (Cons l ls)
  from Cons.prems have "0 \<le> i + 1" by simp
  from Cons.IH [OF this] Cons.prems show ?case by auto
qed

lemma findFrom_first:
  "findFrom i ls = k \<Longrightarrow> k \<noteq> - 1 \<Longrightarrow> 0 \<le> i \<Longrightarrow>
     HasPrefix (ls ! nat (k - i)) separatorPrefix \<and>
     (\<forall>j < nat (k - i). \<not> HasPrefix (ls ! j) separatorPrefix)"
proof (induction ls arbitrary: i)
  case Nil
  then show ?case by simp
next
  case (Cons l ls)
  show ?case
  proof (cases "HasPrefix l separatorPrefix")
    case True
    with Cons.prems show ?thesis by simp
  next
    case False
    with Cons.prems have f: "findFrom (i + 1) ls = k" by simp
    have ge: "i + 1 \<le> k" using findFrom_range [of "i + 1" ls] f Cons.prems by auto
    from Cons.IH [OF f] Cons.prems
    have ih: "HasPrefix (ls ! nat (k - (i + 1))) separatorPrefix"
      "\<forall>j < nat (k - (i + 1)). \<not> HasPrefix (ls ! j) separatorPrefix" by auto
    have n: "nat (k - i) = Suc (nat (k - (i + 1)))" using ge by linarith
    show ?thesis
    proof (intro conjI allI impI)
      show "HasPrefix ((l # ls) ! nat (k - i)) separatorPrefix" using ih(1) n by simp
    next
      fix j assume "j < nat (k - i)"
      then show "\<not> HasPrefix ((l # ls) ! j) separatorPrefix"
        using ih(2) n False by (cases j) auto
    qed
  qed
qed

lemma sep_range:
  "findSeperatorLineIndex ls = - 1 \<or>
     (0 \<le> findSeperatorLineIndex ls \<and> findSeperatorLineIndex ls < int (length ls))"
  using findFrom_range [of 0 ls] by (simp add: findSeperatorLineIndex_def)

lemma slice_one:
  "1 \<le> k \<Longrightarrow> k \<le> int (length xs) \<Longrightarrow> slice xs (k - 1) k = Inr [xs ! nat (k - 1)]"
proof -
  assume a: "1 \<le> k" "k \<le> int (length xs)"
  then have n: "nat k - nat (k - 1) = 1" by linarith
  have lt: "nat (k - 1) < length xs" using a by linarith
  have "take 1 (drop (nat (k - 1)) xs) = [xs ! nat (k - 1)]"
    using lt by (simp add: take_Suc_conv_app_nth)
  with a n show ?thesis by (simp add: slice_def)
qed

lemma sliceFrom_ok:
  "0 \<le> k \<Longrightarrow> k \<le> int (length xs) \<Longrightarrow> sliceFrom xs k = Inr (drop (nat k) xs)"
  by (simp add: sliceFrom_def slice_def)

lemma getFieldMatrix_tokens: "getFieldMatrix ls sep = map (\<lambda>l. tokens l sep) ls"
  by (simp add: getFieldMatrix_def tokens_def)

lemma fixLength_one:
  "getFieldMatrixFixLength [l] sep n = (if int (length (tokens l sep)) = n then [tokens l sep] else [])"
  by (simp add: getFieldMatrixFixLength_def getFieldMatrix_tokens)

lemma fixLength_length: "flds \<in> set (getFieldMatrixFixLength ls sep n) \<Longrightarrow> int (length flds) = n"
  by (simp add: getFieldMatrixFixLength_def)

lemma pbind_simps [simp]: "pbind (Inr x) f = f x" "pbind (Inl p) f = Inl p"
  by (simp_all add: pbind_def)

lemma index_ok: "0 \<le> i \<Longrightarrow> i < int (length xs) \<Longrightarrow> index xs i = Inr (xs ! nat i)"
  by (simp add: index_def)

lemma lock_shape:
  assumes "\<not> lockShapeKnown data"
  shows "GetLockData env data = Inr ([], [])"
proof -
  define lines where "lines = Split data NL"
  define sep where "sep = findSeperatorLineIndex lines"
  show ?thesis
  proof (cases "sep < 1")
    case True
    then show ?thesis by (simp add: GetLockData_def Let_def lines_def sep_def)
  next
    case False
    then have s1: "1 \<le> sep" by simp
    have s2: "sep < int (length lines)" using sep_range [of lines] s1 by (auto simp: sep_def)
    define h where "h = tokens (lines ! nat (sep - 1)) ''  ''"
    have hf: "headerFields data = Some h"
      using False by (simp add: headerFields_def Let_def lines_def [symmetric] sep_def [symmetric] h_def)
    with assms have nk: "\<not> lockHeaderKnown h" by (simp add: lockShapeKnown_def)
    have sl: "slice lines (sep - 1) sep = Inr [lines ! nat (sep - 1)]"
      using s1 s2 by (simp add: slice_one)
    show ?thesis
    proof (cases "length h = 9")
      case False
      then show ?thesis
        using s1 sl
        by (simp add: GetLockData_def Let_def lines_def [symmetric] sep_def [symmetric]
            fixLength_one h_def [symmetric])
    next
      case True
      then have i0: "index h 0 = Inr (h ! 0)" and i5: "index h 5 = Inr (h ! 5)"
        by (simp_all add: index_def)
      from nk True have "h ! 0 \<noteq> ''Pid'' \<or> h ! 5 \<noteq> ''Oplock''" by (simp add: lockHeaderKnown_def)
      then show ?thesis
        using s1 sl True i0 i5
        by (auto simp: GetLockData_def Let_def lines_def [symmetric] sep_def [symmetric]
            fixLength_one h_def [symmetric] index_def)
    qed
  qed
qed


lemma shareHeader_one:
  "shareHeader [l] =
     (if length (tokens l ''  '') = 6 \<or> length (tokens l ''  '') = 7 then [tokens l ''  ''] else [])"
  by (simp add: shareHeader_def fixLength_one Let_def)

lemma shareRunningMode_eq:
  "5 \<le> length h \<Longrightarrow>
     shareRunningMode h =
       Inr (if h ! 0 = ''PID'' \<and> h ! 4 = ''Protocol Version'' then ''cluster''
            else if h ! 0 = ''Service'' \<and> h ! 3 = ''Connected at'' then ''normal'' else ''none'')"
proof -
  assume "5 \<le> length h"
  then have i: "index h 0 = Inr (h ! 0)" "index h 3 = Inr (h ! 3)" "index h 4 = Inr (h ! 4)"
    by (auto simp: index_def)
  show ?thesis unfolding shareRunningMode_def by (simp add: i)
qed

lemma share_shape:
  assumes "\<not> shareShapeKnown data"
  shows "GetShareData env data = Inr ([], [])"
proof -
  define lines where "lines = Split data NL"
  define sep where "sep = findSeperatorLineIndex lines"
  show ?thesis
  proof (cases "sep < 1")
    case True
    then show ?thesis by (simp add: GetShareData_def Let_def lines_def sep_def)
  next
    case False
    then have s1: "1 \<le> sep" by simp
    have s2: "sep < int (length lines)" using sep_range [of lines] s1 by (auto simp: sep_def)
    define h where "h = tokens (lines ! nat (sep - 1)) ''  ''"
    have hf: "headerFields data = Some h"
      using False by (simp add: headerFields_def Let_def lines_def [symmetric] sep_def [symmetric] h_def)
    with assms have nk: "\<not> shareHeaderKnown h" by (simp add: shareShapeKnown_def)
    have sl: "slice lines (sep - 1) sep = Inr [lines ! nat (sep - 1)]"
      using s1 s2 by (simp add: slice_one)
    have sf: "sliceFrom lines (sep + 1) = Inr (drop (nat (sep + 1)) lines)"
      using s1 s2 by (simp add: sliceFrom_ok)
    show ?thesis
    proof (cases "length h = 6 \<or> length h = 7")
      case False
      then show ?thesis
        using s1 sl
        by (simp add: GetShareData_def Let_def lines_def [symmetric] sep_def [symmetric]
            shareHeader_one h_def [symmetric])
    next
      case True
      then have "5 \<le> length h" by auto
      then have "shareRunningMode h = Inr ''none''"
        using nk True by (auto simp: shareRunningMode_eq shareHeaderKnown_def)
      then show ?thesis
        using s1 sl sf True
        by (simp add: GetShareData_def Let_def lines_def [symmetric] sep_def [symmetric]
            shareHeader_one h_def [symmetric] index_def)
    qed
  qed
qed

lemma process_shape:
  assumes "\<not> processShapeKnown data"
  shows "GetProcessData data = Inr ([], [])"
proof -
  define lines where "lines = Split data NL"
  define sep where "sep = findSeperatorLineIndex lines"
  show ?thesis
  proof (cases "sep < 2")
    case True
    then show ?thesis by (simp add: GetProcessData_def Let_def lines_def sep_def)
  next
    case False
    then have s1: "2 \<le> sep" by simp
    have s2: "sep < int (length lines)" using sep_range [of lines] s1 by (auto simp: sep_def)
    define h where "h = tokens (lines ! nat (sep - 1)) ''  ''"
    define b where "b = lines ! nat (sep - 2)"
    have hf: "headerFields data = Some h"
      using s1 by (simp add: headerFields_def Let_def lines_def [symmetric] sep_def [symmetric] h_def)
    have bf: "bannerLine data = Some b"
      using s1 by (simp add: bannerLine_def Let_def lines_def [symmetric] sep_def [symmetric] b_def)
    from assms hf bf have nk: "\<not> HasPrefix b ''Samba version'' \<or> \<not> processHeaderKnown h"
      by (simp add: processShapeKnown_def)
    have sl: "slice lines (sep - 1) sep = Inr [lines ! nat (sep - 1)]"
      using s1 s2 by (simp add: slice_one)
    have "slice lines (sep - 1 - 1) (sep - 1) = Inr [lines ! nat (sep - 1 - 1)]"
      using s1 s2 by (intro slice_one) auto
    then have sb: "slice lines (sep - 2) (sep - 1) = Inr [b]" by (simp add: b_def)
    show ?thesis
    proof (cases "HasPrefix b ''Samba version''")
      case False
      then show ?thesis
        using s1 sb
        by (simp add: GetProcessData_def Let_def lines_def [symmetric] sep_def [symmetric] index_def)
    next
      case True
      with nk have nh: "\<not> processHeaderKnown h" by simp
      show ?thesis
      proof (cases "length h = 7")
        case False
        then show ?thesis
          using s1 sb sl True
          by (simp add: GetProcessData_def Let_def lines_def [symmetric] sep_def [symmetric]
              index_def fixLength_one h_def [symmetric])
      next
        case l7: True
        with nh have "h ! 1 \<noteq> ''Username'' \<or> h ! 4 \<noteq> ''Protocol Version''"
          by (simp add: processHeaderKnown_def)
        then show ?thesis
          using s1 sb sl True l7
          by (auto simp: GetProcessData_def Let_def lines_def [symmetric] sep_def [symmetric]
              index_def fixLength_one h_def [symmetric])
      qed
    qed
  qed
qed

lemma no_separator:
  assumes "\<forall>line \<in> set (Split data NL). \<not> HasPrefix line separatorPrefix"
  shows "GetLockData env data = Inr ([], [])" "GetShareData env data = Inr ([], [])"
    "GetProcessData data = Inr ([], [])"
proof -
  have "findSeperatorLineIndex (Split data NL) = - 1"
    using assms findFrom_none [of 0 "Split data NL"] by (simp add: findSeperatorLineIndex_def)
  then show "GetLockData env data = Inr ([], [])" "GetShareData env data = Inr ([], [])"
    "GetProcessData data = Inr ([], [])"
    by (simp_all add: GetLockData_def GetShareData_def GetProcessData_def Let_def)
qed

lemma separatorPrefix_replicate: "separatorPrefix = replicate 41 (CHR ''-'')"
  by code_simp

lemma HasPrefix_iff: "HasPrefix s p \<longleftrightarrow> (\<exists>rest. s = p @ rest)"
proof
  assume "HasPrefix s p"
  then have "s = p @ drop (length p) s"
    by (metis HasPrefix_def append_take_drop_id)
  then show "\<exists>rest. s = p @ rest" ..
next
  assume "\<exists>rest. s = p @ rest"
  then show "HasPrefix s p" by (auto simp: HasPrefix_def)
qed

lemma short_dash_row: "k < 41 \<Longrightarrow> \<not> HasPrefix (replicate k (CHR ''-'')) separatorPrefix"
proof
  assume k: "k < 41" and "HasPrefix (replicate k (CHR ''-'')) separatorPrefix"
  then have "length (take (length separatorPrefix) (replicate k (CHR ''-''))) = length separatorPrefix"
    by (simp add: HasPrefix_def)
  then show False using k by (simp add: separatorPrefix_replicate)
qed

lemma obind_Next_iff: "obind m f = Next r \<longleftrightarrow> (\<exists>x. m = Next x \<and> f x = Next r)"
  by (cases m) auto

lemma at_Next_iff: "at xs i = Next x \<longleftrightarrow> 0 \<le> i \<and> i < int (length xs) \<and> x = xs ! nat i"
  by (auto simp: at_def index_def)

lemma atoiOr_Next_iff: "atoiOr s a = Next v \<longleftrightarrow> Atoi s = Inr v"
  by (auto simp: atoiOr_def split: sum.splits)



lemma clusterPid_Next:
  assumes "clusterPid tok a b c = Next (node, pid)"
  shows "(\<not> Contains tok '':'' \<longrightarrow> node = - 1 \<and> Atoi tok = Inr pid) \<and>
         (Contains tok '':'' \<longrightarrow> Atoi (Split tok '':'' ! 0) = Inr node \<and> Atoi (Split tok '':'' ! 1) = Inr pid)"
  using assms
  by (auto simp: clusterPid_def Let_def obind_Next_iff at_Next_iff atoiOr_Next_iff split: if_splits)


lemma lockFixedColumns_ids:
  "lockFixedColumns e flds = Next r \<Longrightarrow>
     7 \<le> length flds \<and>
     clusterPid (flds ! 0) ''while getting LockData ClusterNodeId''
       ''while getting LockData PID (ClusterNodeId)'' ''while getting LockData PID''
       = Next (L_ClusterNodeId r, L_PID r)"
  by (clarsimp simp: lockFixedColumns_def obind_Next_iff at_Next_iff)

lemma lockBody_fixed:
  "lockBody env lines e (i, flds) = Next r \<Longrightarrow>
     \<exists>r1. lockFixedColumns e flds = Next r1 \<and> L_ClusterNodeId r = L_ClusterNodeId r1 \<and> L_PID r = L_PID r1"
  by (clarsimp simp: lockBody_def obind_Next_iff split: if_splits)

lemma lockBody_ids:
  "lockBody env lines e (i, flds) = Next r \<Longrightarrow>
     7 \<le> length flds \<and>
     clusterPid (flds ! 0) ''while getting LockData ClusterNodeId''
       ''while getting LockData PID (ClusterNodeId)'' ''while getting LockData PID''
       = Next (L_ClusterNodeId r, L_PID r)"
  using lockBody_fixed [of env lines e i flds r] lockFixedColumns_ids [of e flds] by auto

lemma shareBody12_ids:
  "shareBody12 env e flds = Next r \<Longrightarrow>
     12 \<le> length flds \<and>
     clusterPid (flds ! 1) ''while getting ShareData ClusterNodeId (normal - c12 - with :)''
              ''while getting ShareData PID (normal - c12 - with :)''
              ''while getting ShareData PID (normal - c12 - without :)''
       = Next (S_ClusterNodeId r, S_PID r)"
  by (clarsimp simp: shareBody12_def obind_Next_iff at_Next_iff)

lemma shareBody11_ids:
  "shareBody11 env e flds = Next r \<Longrightarrow>
     11 \<le> length flds \<and>
     clusterPid (flds ! 1) ''while getting ShareData ClusterNodeId (normal - c11 - with :)''
              ''while getting ShareData PID (normal - c11 - with :)''
              ''while getting ShareData PID (normal - c11 - without :)''
       = Next (S_ClusterNodeId r, S_PID r)"
  by (clarsimp simp: shareBody11_def obind_Next_iff at_Next_iff)

lemma shareBodyCluster_ids:
  "shareBodyCluster e flds = Next r \<Longrightarrow>
     8 \<le> length flds \<and>
     clusterPid (flds ! 0) ''while getting ShareData ClusterNodeId (cluster - with :)''
              ''while getting ShareData PID (cluster - with :)''
              ''while getting ShareData PID (cluster - without :)''
       = Next (S_ClusterNodeId r, S_PID r)"
  by (clarsimp simp: shareBodyCluster_def obind_Next_iff at_Next_iff)

lemma processBody_ids:
  "processBody v e flds = Next r \<Longrightarrow>
     8 \<le> length flds \<and>
     clusterPid (flds ! 0) ''while getting ProcessData ClusterNodeId''
              ''while getting ProcessData PID (with :)'' ''while getting ProcessData PID (without :)''
       = Next (P_ClusterNodeId r, P_PID r)"
  by (clarsimp simp: processBody_def obind_Next_iff at_Next_iff)

lemma fixLength_filter:
  "getFieldMatrixFixLength ls sep (int n) = filter (\<lambda>flds. length flds = n) (getFieldMatrix ls sep)"
  by (simp add: getFieldMatrixFixLength_def)

lemma GetLockData_known:
  assumes "lockShapeKnown data"
  shows "GetLockData env data =
           (if TrimSpace data = ''No locked files'' then Inr ([], [])
            else rangeLoop (lockBody env (Split data NL) LockData_zero)
                   (enumerate 0 (dataRows data)) ([], []))"
proof -
  define lines where "lines = Split data NL"
  define sep where "sep = findSeperatorLineIndex lines"
  define h where "h = tokens (lines ! nat (sep - 1)) ''  ''"
  from assms have s1: "1 \<le> sep"
    by (auto simp: lockShapeKnown_def headerFields_def Let_def lines_def sep_def split: if_splits)
  then have hf: "headerFields data = Some h"
    by (simp add: headerFields_def Let_def lines_def [symmetric] sep_def [symmetric] h_def)
  with assms have k: "length h = 9" "h ! 0 = ''Pid''" "h ! 5 = ''Oplock''"
    by (simp_all add: lockShapeKnown_def lockHeaderKnown_def)
  have s2: "sep < int (length lines)" using sep_range [of lines] s1 by (auto simp: sep_def)
  have sl: "slice lines (sep - 1) sep = Inr [lines ! nat (sep - 1)]"
    using s1 s2 by (simp add: slice_one)
  have sf: "sliceFrom lines (sep + 1) = Inr (drop (nat (sep + 1)) lines)"
    using s1 s2 by (simp add: sliceFrom_ok)
  have i: "index h 0 = Inr (h ! 0)" "index h 5 = Inr (h ! 5)" "index [h] 0 = Inr h"
    using k(1) by (simp_all add: index_def)
  have fm: "getFieldMatrixFixLength [lines ! nat (sep - 1)] ''  '' 9 = [h]"
    using k(1) by (simp add: fixLength_one h_def)
  have d: "dataRows data = getFieldMatrix (drop (nat (sep + 1)) lines) '' ''"
    by (simp add: dataRows_def Let_def lines_def sep_def)
  show ?thesis
    unfolding GetLockData_def Let_def lines_def [symmetric] sep_def [symmetric]
    using s1 k by (simp add: sl fm i sf d)
qed

lemma GetProcessData_known:
  assumes "processShapeKnown data"
  shows "GetProcessData data =
           rangeLoop (processBody (sambaVersionOf data) ProcessData_zero)
             (rowsOfLength 8 data) ([], [])"
proof -
  define lines where "lines = Split data NL"
  define sep where "sep = findSeperatorLineIndex lines"
  define h where "h = tokens (lines ! nat (sep - 1)) ''  ''"
  define b where "b = lines ! nat (sep - 2)"
  from assms have s1: "2 \<le> sep"
    by (auto simp: processShapeKnown_def bannerLine_def Let_def lines_def sep_def split: if_splits)
  then have hf: "headerFields data = Some h"
    by (simp add: headerFields_def Let_def lines_def [symmetric] sep_def [symmetric] h_def)
  from s1 have bf: "bannerLine data = Some b"
    by (simp add: bannerLine_def Let_def lines_def [symmetric] sep_def [symmetric] b_def)
  from assms hf bf have k: "length h = 7" "h ! 1 = ''Username''" "h ! 4 = ''Protocol Version''"
    and bp: "HasPrefix b ''Samba version''"
    by (simp_all add: processShapeKnown_def processHeaderKnown_def)
  have s2: "sep < int (length lines)" using sep_range [of lines] s1 by (auto simp: sep_def)
  have sl: "slice lines (sep - 1) sep = Inr [lines ! nat (sep - 1)]"
    using s1 s2 by (simp add: slice_one)
  have "slice lines (sep - 1 - 1) (sep - 1) = Inr [lines ! nat (sep - 1 - 1)]"
    using s1 s2 by (intro slice_one) auto
  then have sb: "slice lines (sep - 2) (sep - 1) = Inr [b]" by (simp add: b_def)
  have sf: "sliceFrom lines (sep + 1) = Inr (drop (nat (sep + 1)) lines)"
    using s1 s2 by (simp add: sliceFrom_ok)
  have i: "index h 1 = Inr (h ! 1)" "index h 4 = Inr (h ! 4)" "index [h] 0 = Inr h"
    "index [b] 0 = Inr b"
    using k(1) by (simp_all add: index_def)
  have fm: "getFieldMatrixFixLength [lines ! nat (sep - 1)] ''  '' 7 = [h]"
    using k(1) by (simp add: fixLength_one h_def)
  have d: "getFieldMatrixFixLength (drop (nat (sep + 1)) lines) '' '' 8 = rowsOfLength 8 data"
    using fixLength_filter [of "drop (nat (sep + 1)) lines" "'' ''" 8]
    by (simp add: rowsOfLength_def dataRows_def Let_def lines_def sep_def)
  have v: "TrimSpace (Replace b ''Samba version'' [] 1) = sambaVersionOf data"
    by (simp add: sambaVersionOf_def bf)
  show ?thesis
    unfolding GetProcessData_def Let_def lines_def [symmetric] sep_def [symmetric]
    using s1 k v bp by (simp add: sb sl fm i sf d)
qed

lemma GetShareData_known:
  assumes "shareShapeKnown data"
  shows "GetShareData env data =
           (if clusterHeader data
            then (if rowsOfLength 8 data \<noteq> []
                  then rangeLoop (shareBodyCluster ShareData_zero) (rowsOfLength 8 data) ([], [])
                  else Inr ([], []))
            else (if rowsOfLength 12 data \<noteq> []
                  then rangeLoop (shareBody12 env ShareData_zero) (rowsOfLength 12 data) ([], [])
                  else if rowsOfLength 11 data \<noteq> []
                  then rangeLoop (shareBody11 env ShareData_zero) (rowsOfLength 11 data) ([], [])
                  else Inr ([], [])))"
proof -
  define lines where "lines = Split data NL"
  define sep where "sep = findSeperatorLineIndex lines"
  define h where "h = tokens (lines ! nat (sep - 1)) ''  ''"
  from assms have s1: "1 \<le> sep"
    by (auto simp: shareShapeKnown_def headerFields_def Let_def lines_def sep_def split: if_splits)
  then have hf: "headerFields data = Some h"
    by (simp add: headerFields_def Let_def lines_def [symmetric] sep_def [symmetric] h_def)
  with assms have k: "shareHeaderKnown h" by (simp add: shareShapeKnown_def)
  then have len: "length h = 6 \<or> length h = 7" by (simp add: shareHeaderKnown_def)
  then have l5: "5 \<le> length h" by auto
  have s2: "sep < int (length lines)" using sep_range [of lines] s1 by (auto simp: sep_def)
  have sl: "slice lines (sep - 1) sep = Inr [lines ! nat (sep - 1)]"
    using s1 s2 by (simp add: slice_one)
  have sf: "sliceFrom lines (sep + 1) = Inr (drop (nat (sep + 1)) lines)"
    using s1 s2 by (simp add: sliceFrom_ok)
  have sh: "shareHeader [lines ! nat (sep - 1)] = [h]"
    using len by (simp add: shareHeader_one h_def)
  have i: "index [h] 0 = Inr h" by (simp add: index_def)
  have d: "\<And>n. getFieldMatrixFixLength (drop (nat (sep + 1)) lines) '' '' (int n) = rowsOfLength n data"
    by (simp add: fixLength_filter rowsOfLength_def dataRows_def Let_def lines_def sep_def)
  have d12: "getFieldMatrixFixLength (drop (nat (sep + 1)) lines) '' '' 12 = rowsOfLength 12 data"
    using d [of 12] by simp
  have d11: "getFieldMatrixFixLength (drop (nat (sep + 1)) lines) '' '' 11 = rowsOfLength 11 data"
    using d [of 11] by simp
  have d8: "getFieldMatrixFixLength (drop (nat (sep + 1)) lines) '' '' 8 = rowsOfLength 8 data"
    using d [of 8] by simp
  have c: "clusterHeader data = (h ! 0 = ''PID'' \<and> h ! 4 = ''Protocol Version'')"
    by (simp add: clusterHeader_def hf)
  show ?thesis
  proof (cases "h ! 0 = ''PID'' \<and> h ! 4 = ''Protocol Version''")
    case True
    then have m: "shareRunningMode h = Inr ''cluster''" by (simp add: shareRunningMode_eq [OF l5])
    show ?thesis
      unfolding GetShareData_def Let_def lines_def [symmetric] sep_def [symmetric]
      using s1 True by (auto simp: sl sh i m sf d12 d11 d8 c)
  next
    case False
    with k have "h ! 0 = ''Service'' \<and> h ! 3 = ''Connected at''"
      by (auto simp: shareHeaderKnown_def)
    with False have m: "shareRunningMode h = Inr ''normal''"
      by (simp add: shareRunningMode_eq [OF l5])
    show ?thesis
      unfolding GetShareData_def Let_def lines_def [symmetric] sep_def [symmetric]
      using s1 False by (auto simp: sl sh i m sf d12 d11 d8 c)
  qed
qed

lemma parseEither_no_panic: "parseEither env l1 l2 s a \<noteq> Panic p"
  by (auto simp: parseEither_def split: sum.splits)

lemma processBody_fixed:
  "length flds = 8 \<Longrightarrow>
     processBody v e flds =
       obind (clusterPid (flds ! 0) ''while getting ProcessData ClusterNodeId''
                ''while getting ProcessData PID (with :)'' ''while getting ProcessData PID (without :)'')
         (\<lambda>(node, pid).
       obind (if flds ! 1 = ''nobody'' then Next (- 1)
              else atoiOr (flds ! 1) ''while getting ProcessData UserID'') (\<lambda>uid.
       obind (if flds ! 2 = ''nogroup'' then Next (- 1)
              else atoiOr (flds ! 2) ''while getting ProcessData GroupID'') (\<lambda>gid.
         Next (e\<lparr>P_ClusterNodeId := node, P_PID := pid, P_UserID := uid, P_GroupID := gid,
                  P_Machine := flds ! 3 @ '' '' @ flds ! 4, P_ProtocolVersion := flds ! 5,
                  P_Encryption := flds ! 6, P_Signing := flds ! 7,
                  P_SambaVersion := v\<rparr>))))"
  by (simp add: processBody_def at_def index_def)

lemma shareBodyCluster_fixed:
  "length flds = 8 \<Longrightarrow>
     shareBodyCluster e flds =
       obind (clusterPid (flds ! 0) ''while getting ShareData ClusterNodeId (cluster - with :)''
              ''while getting ShareData PID (cluster - with :)''
              ''while getting ShareData PID (cluster - without :)'')
         (\<lambda>(node, pid).
           Next (e\<lparr>S_ClusterNodeId := node, S_PID := pid, S_Machine := flds ! 3 @ '' '' @ flds ! 4,
                    S_Encryption := flds ! 6, S_Signing := flds ! 7\<rparr>))"
  by (simp add: shareBodyCluster_def at_def index_def)

lemma shareBody12_fixed:
  "length flds = 12 \<Longrightarrow>
     shareBody12 env e flds =
       obind (clusterPid (flds ! 1) ''while getting ShareData ClusterNodeId (normal - c12 - with :)''
              ''while getting ShareData PID (normal - c12 - with :)''
              ''while getting ShareData PID (normal - c12 - without :)'')
         (\<lambda>(node, pid).
       obind (parseEither env ''Mon Jan 02 03:04:05 PM 2006 MST'' ''Mon Jan 2 03:04:05 PM 2006 MST''
              (flds ! 3 @ '' '' @ flds ! 4 @ '' '' @ flds ! 5 @ '' '' @ flds ! 6 @ '' '' @ flds ! 7
                 @ '' '' @ flds ! 8 @ '' '' @ flds ! 9)
              ''while getting ShareData ConnectedAt (normal - c12)'')
         (\<lambda>connectedAt.
           Next (e\<lparr>S_Service := flds ! 0, S_ClusterNodeId := node, S_PID := pid, S_Machine := flds ! 2,
                    S_ConnectedAt := connectedAt, S_Encryption := flds ! 10,
                    S_Signing := flds ! 11\<rparr>)))"
  by (simp add: shareBody12_def at_def index_def)

lemma shareBody11_fixed:
  "length flds = 11 \<Longrightarrow>
     shareBody11 env e flds =
       obind (clusterPid (flds ! 1) ''while getting ShareData ClusterNodeId (normal - c11 - with :)''
              ''while getting ShareData PID (normal - c11 - with :)''
              ''while getting ShareData PID (normal - c11 - without :)'')
         (\<lambda>(node, pid).
       obind (parseEither env ''Mon Jan _2 15:04:05 2006 MST'' ''Mo Jan _2 15:04:05 2006 MST''
              (flds ! 3 @ '' '' @ flds ! 4 @ '' '' @ flds ! 5 @ '' '' @ flds ! 6 @ '' '' @ flds ! 7
                 @ '' '' @ flds ! 8)
              ''while getting ShareData ConnectedAt (normal - c11)'')
         (\<lambda>connectedAt.
           Next (e\<lparr>S_Service := flds ! 0, S_ClusterNodeId := node, S_PID := pid, S_Machine := flds ! 2,
                    S_ConnectedAt := connectedAt, S_Encryption := flds ! 9,
                    S_Signing := flds ! 10\<rparr>)))"
  by (simp add: shareBody11_def at_def index_def)

lemma processBody_no_panic: "length flds = 8 \<Longrightarrow> processBody v e flds \<noteq> Panic p"
  by (auto simp: processBody_fixed obind_Panic_iff clusterPid_no_panic atoiOr_no_panic)

lemma shareBodyCluster_no_panic: "length flds = 8 \<Longrightarrow> shareBodyCluster e flds \<noteq> Panic p"
  by (auto simp: shareBodyCluster_fixed obind_Panic_iff clusterPid_no_panic)

lemma shareBody12_no_panic: "length flds = 12 \<Longrightarrow> shareBody12 env e flds \<noteq> Panic p"
  by (auto simp: shareBody12_fixed obind_Panic_iff clusterPid_no_panic parseEither_no_panic)

lemma shareBody11_no_panic: "length flds = 11 \<Longrightarrow> shareBody11 env e flds \<noteq> Panic p"
  by (auto simp: shareBody11_fixed obind_Panic_iff clusterPid_no_panic parseEither_no_panic)

lemma rowsOfLength_length: "flds \<in> set (rowsOfLength n data) \<Longrightarrow> length flds = n"
  by (simp add: rowsOfLength_def)

lemma GetProcessData_returns:
  "\<exists>lg recs. GetProcessData data = Inr (lg, recs)"
proof (cases "processShapeKnown data")
  case True
  have "rangeLoop (processBody (sambaVersionOf data) ProcessData_zero) (rowsOfLength 8 data) ([], [])
          = Inr ([] @ logged (processBody (sambaVersionOf data) ProcessData_zero) (rowsOfLength 8 data),
                 [] @ appended (processBody (sambaVersionOf data) ProcessData_zero) (rowsOfLength 8 data))"
    by (rule rangeLoop_total) (simp add: processBody_no_panic rowsOfLength_length)
  with True show ?thesis by (simp add: GetProcessData_known)
next
  case False
  then show ?thesis by (simp add: process_shape)
qed

lemma GetShareData_returns:
  "\<exists>lg recs. GetShareData env data = Inr (lg, recs)"
proof (cases "shareShapeKnown data")
  case True
  have a: "\<And>lg ret. \<exists>st. rangeLoop (shareBodyCluster ShareData_zero) (rowsOfLength 8 data) (lg, ret) = Inr st"
    using rangeLoop_total [of "rowsOfLength 8 data" "shareBodyCluster ShareData_zero"]
    by (simp add: shareBodyCluster_no_panic rowsOfLength_length)
  have b: "\<And>lg ret. \<exists>st. rangeLoop (shareBody12 env ShareData_zero) (rowsOfLength 12 data) (lg, ret) = Inr st"
    using rangeLoop_total [of "rowsOfLength 12 data" "shareBody12 env ShareData_zero"]
    by (simp add: shareBody12_no_panic rowsOfLength_length)
  have c: "\<And>lg ret. \<exists>st. rangeLoop (shareBody11 env ShareData_zero) (rowsOfLength 11 data) (lg, ret) = Inr st"
    using rangeLoop_total [of "rowsOfLength 11 data" "shareBody11 env ShareData_zero"]
    by (simp add: shareBody11_no_panic rowsOfLength_length)
  from a [of "[]" "[]"] b [of "[]" "[]"] c [of "[]" "[]"] True show ?thesis
    by (auto simp: GetShareData_known)
next
  case False
  then show ?thesis by (simp add: share_shape)
qed

lemma rangeLoop_mem:
  "rangeLoop body rows ([], []) = Inr (lg, recs) \<Longrightarrow> r \<in> set recs \<Longrightarrow>
     \<exists>row \<in> set rows. body row = Next r"
  using rangeLoop_Inr [of body rows "[]" "[]" lg recs] appended_mem [of r body rows] by simp

lemma GetLockData_origin:
  assumes "GetLockData env data = Inr (lg, recs)" "r \<in> set recs"
  shows "\<exists>row \<in> set (enumerate 0 (dataRows data)).
           lockBody env (Split data NL) LockData_zero row = Next r"
proof (cases "lockShapeKnown data")
  case True
  with assms have "rangeLoop (lockBody env (Split data NL) LockData_zero)
                   (enumerate 0 (dataRows data)) ([], []) = Inr (lg, recs)"
    by (auto simp: GetLockData_known split: if_splits)
  from rangeLoop_mem [OF this assms(2)] show ?thesis .
next
  case False
  with assms show ?thesis by (simp add: lock_shape)
qed

lemma GetProcessData_origin:
  assumes "GetProcessData data = Inr (lg, recs)" "r \<in> set recs"
  shows "\<exists>flds \<in> set (rowsOfLength 8 data).
           processBody (sambaVersionOf data) ProcessData_zero flds = Next r"
proof (cases "processShapeKnown data")
  case True
  with assms have "rangeLoop (processBody (sambaVersionOf data) ProcessData_zero)
             (rowsOfLength 8 data) ([], []) = Inr (lg, recs)"
    by (simp add: GetProcessData_known)
  from rangeLoop_mem [OF this assms(2)] show ?thesis .
next
  case False
  with assms show ?thesis by (simp add: process_shape)
qed

lemma GetShareData_origin:
  assumes "GetShareData env data = Inr (lg, recs)" "r \<in> set recs"
  shows "(clusterHeader data \<and>
            (\<exists>flds \<in> set (rowsOfLength 8 data). shareBodyCluster ShareData_zero flds = Next r)) \<or>
         (\<not> clusterHeader data \<and>
            ((\<exists>flds \<in> set (rowsOfLength 12 data). shareBody12 env ShareData_zero flds = Next r) \<or>
             (\<exists>flds \<in> set (rowsOfLength 11 data). shareBody11 env ShareData_zero flds = Next r)))"
proof (cases "shareShapeKnown data")
  case True
  show ?thesis
  proof (cases "clusterHeader data")
    case c: True
    with True assms have "rangeLoop (shareBodyCluster ShareData_zero) (rowsOfLength 8 data) ([], [])
        = Inr (lg, recs)"
      by (auto simp: GetShareData_known split: if_splits)
    from rangeLoop_mem [OF this assms(2)] c show ?thesis by simp
  next
    case c: False
    with True assms have
      "rangeLoop (shareBody12 env ShareData_zero) (rowsOfLength 12 data) ([], []) = Inr (lg, recs) \<or>
       rangeLoop (shareBody11 env ShareData_zero) (rowsOfLength 11 data) ([], []) = Inr (lg, recs)"
      by (auto simp: GetShareData_known split: if_splits)
    then show ?thesis
    proof
      assume "rangeLoop (shareBody12 env ShareData_zero) (rowsOfLength 12 data) ([], []) = Inr (lg, recs)"
      from rangeLoop_mem [OF this assms(2)] c show ?thesis by simp
    next
      assume "rangeLoop (shareBody11 env ShareData_zero) (rowsOfLength 11 data) ([], []) = Inr (lg, recs)"
      from rangeLoop_mem [OF this assms(2)] c show ?thesis by simp
    qed
  qed
next
  case False
  with assms show ?thesis by (simp add: share_shape)
qed

lemma processBody_any_entry:
  "length flds = 8 \<Longrightarrow> processBody v e flds = Next r \<Longrightarrow> processBody v e' flds = Next r"
  by (cases e, cases e') (auto simp: processBody_fixed obind_Next_iff split: if_splits)

lemma shareBody12_any_entry:
  "length flds = 12 \<Longrightarrow> shareBody12 env e flds = Next r \<Longrightarrow> shareBody12 env e' flds = Next r"
  by (cases e, cases e') (clarsimp simp: shareBody12_fixed obind_Next_iff)

lemma shareBody11_any_entry:
  "length flds = 11 \<Longrightarrow> shareBody11 env e flds = Next r \<Longrightarrow> shareBody11 env e' flds = Next r"
  by (cases e, cases e') (clarsimp simp: shareBody11_fixed obind_Next_iff)

lemma shareBodyCluster_any_entry:
  "length flds = 8 \<Longrightarrow> shareBodyCluster e flds = Next r \<Longrightarrow>
     S_Service r = S_Service e \<and> S_ConnectedAt r = S_ConnectedAt e \<and>
     shareBodyCluster e' flds = Next (r\<lparr>S_Service := S_Service e', S_ConnectedAt := S_ConnectedAt e'\<rparr>)"
  by (cases e, cases e') (clarsimp simp: shareBodyCluster_fixed obind_Next_iff)

lemma lockFixedColumns_any_entry:
  "lockFixedColumns e flds = Next r \<Longrightarrow>
     lockFixedColumns e' flds = Next (r\<lparr>L_Name := L_Name e', L_Time := L_Time e'\<rparr>)"
  by (cases e, cases e') (clarsimp simp: lockFixedColumns_def obind_Next_iff)

lemma lockBody_any_entry:
  "lockBody env lines e row = Next r \<Longrightarrow> lockBody env lines e' row = Next r"
proof -
  assume a: "lockBody env lines e row = Next r"
  obtain i flds where row: "row = (i, flds)" by (cases row)
  from a row obtain r1 where f: "lockFixedColumns e flds = Next r1"
    by (auto simp: lockBody_def obind_Next_iff)
  note f' = lockFixedColumns_any_entry [OF f, of e']
  from a show ?thesis
    unfolding lockBody_def row
    by (auto simp: f f' obind_Next_iff split: if_splits)
qed

lemma clusterPid_Next_any:
  "clusterPid tok a b c = Next x \<Longrightarrow> clusterPid tok a' b' c' = Next x"
  by (auto simp: clusterPid_def Let_def obind_Next_iff atoiOr_Next_iff split: if_splits)

lemma parseUint_nonneg: "0 \<le> n \<Longrightarrow> parseUint n s = Inr m \<Longrightarrow> 0 \<le> m"
proof (induction s arbitrary: n)
  case Nil
  then show ?case by simp
next
  case (Cons c cs)
  from Cons.prems(2) have d: "isDigit c"
    and r: "parseUint (n * 10 + (of_char c - 48)) cs = Inr m"
    by (auto split: if_splits)
  from d Cons.prems(1) have "0 \<le> n * 10 + (of_char c - 48)" by (simp add: isDigit_def)
  from Cons.IH [OF this r] show ?case .
qed

lemma Atoi_negative: "Atoi s = Inr n \<Longrightarrow> n < 0 \<Longrightarrow> HasPrefix s ''-''"
proof -
  assume a: "Atoi s = Inr n" and n: "n < 0"
  show ?thesis
  proof (cases "s \<noteq> [] \<and> hd s = CHR ''-''")
    case True
    then show ?thesis by (cases s) (auto simp: HasPrefix_def)
  next
    case False
    with a obtain s1 un where "parseUint 0 s1 = Inr un" "n = un"
      by (auto simp: Atoi_def Let_def split: if_splits sum.splits)
    with parseUint_nonneg [of 0 s1 un] n show ?thesis by simp
  qed
qed

lemma HasPrefix_append: "HasPrefix a p \<Longrightarrow> HasPrefix (a @ b) p"
  by (auto simp: HasPrefix_iff)

lemma clusterPid_nodeId:
  assumes "clusterPid tok a b c = Next (node, pid)"
  shows "nodeIdFromToken tok node"
proof (cases "Contains tok '':''")
  case False
  with clusterPid_Next [OF assms] show ?thesis by (simp add: nodeIdFromToken_def)
next
  case True
  with clusterPid_Next [OF assms] have at: "Atoi (Split tok '':'' ! 0) = Inr node" by simp
  from True have "CHR '':'' \<in> set tok" by (simp add: Contains_char)
  from Split_char_in [OF this] obtain x y where
    xy: "tok = x @ CHR '':'' # y" "Split tok '':'' = x # Split y '':''" by blast
  have "node < 0 \<longrightarrow> HasPrefix tok ''-''"
  proof
    assume "node < 0"
    with at xy(2) have "HasPrefix x ''-''" using Atoi_negative by simp
    then show "HasPrefix tok ''-''" using xy(1) HasPrefix_append by simp
  qed
  with at True show ?thesis by (simp add: nodeIdFromToken_def)
qed

lemma rowsOfLength_subset: "flds \<in> set (rowsOfLength n data) \<Longrightarrow> flds \<in> set (dataRows data) \<and> length flds = n"
  by (simp add: rowsOfLength_def)

subsection \<open>The parsers on the sample tables\<close>

lemma sample_locks: "GetLockData sampleEnv sampleLockTable = Inr ([], [sampleLockRecord])"
  by code_simp

lemma sample_shares: "GetShareData sampleEnv sampleShareTable = Inr ([], [sampleShareRecord])"
  by code_simp

lemma sample_processes: "GetProcessData sampleProcessTable = Inr ([], [sampleProcessRecord])"
  by code_simp

lemma sample_cluster_shares:
  "GetShareData sampleEnv sampleClusterShareTable = Inr ([], [sampleClusterShareRecord])"
  by code_simp

lemma sample_cluster_processes:
  "GetProcessData sampleClusterProcessTable = Inr ([], [sampleClusterProcessRecord])"
  by code_simp

lemma cutOut_last:
  "k \<le> length flds \<Longrightarrow>
     cutOut flds (int (length flds) - int k) (int (length flds)) = Next (lastTokens k flds)"
  by (simp add: cutOut_def slice_def lastTokens_def nat_diff_distrib')

lemma cutOut_fromTo:
  "lo \<le> hi \<Longrightarrow> hi \<le> length flds \<Longrightarrow> cutOut flds (int lo) (int hi) = Next (fromTo lo hi flds)"
  by (simp add: cutOut_def slice_def fromTo_def)

lemma tryGet_firstMatch:
  "tryGetTimeStampFromStrArr env w =
     (case firstMatch (timeStampAttempts env (TrimSpace (joinFields w))) of
        Some t \<Rightarrow> (True, t) | None \<Rightarrow> (False, Now env))"
  by (simp add: tryGetTimeStampFromStrArr_def timeStampAttempts_def Let_def split: sum.splits)

lemma lockTimeStamp_5:
  assumes "6 \<le> length flds" "tryGetTimeStampFromStrArr env (lastTokens 5 flds) = (True, t)"
  shows "lockTimeStamp env flds = Next (t, int (length flds) - 5)"
  using assms cutOut_last [of 5 flds] by (simp add: lockTimeStamp_def Let_def)

lemma lockTimeStamp_6:
  assumes "6 \<le> length flds" "tryGetTimeStampFromStrArr env (lastTokens 5 flds) = (False, t0)"
    "tryGetTimeStampFromStrArr env (lastTokens 6 flds) = (True, t)"
  shows "lockTimeStamp env flds = Next (t, int (length flds) - 6)"
  using assms cutOut_last [of 5 flds] cutOut_last [of 6 flds] by (simp add: lockTimeStamp_def Let_def)

lemma lockTimeStamp_none:
  assumes "6 \<le> length flds" "tryGetTimeStampFromStrArr env (lastTokens 5 flds) = (False, t0)"
    "tryGetTimeStampFromStrArr env (lastTokens 6 flds) = (False, t1)"
  shows "lockTimeStamp env flds = Next (t1, - 1)"
  using assms cutOut_last [of 5 flds] cutOut_last [of 6 flds] by (simp add: lockTimeStamp_def Let_def)

lemma lockBody_after_time:
  assumes "lockFixedColumns entry flds = Next e1" "i < length lines"
    "lockTimeStamp env flds = Next (t, int start)" "start \<le> length flds"
  shows "lockBody env lines entry (i, flds) =
           (if start \<le> 7 then Continue (nameMissing (lines ! i))
            else Next (e1\<lparr>L_Time := t, L_Name := TrimSpace (joinFields (fromTo 7 start flds))\<rparr>))"
proof -
  have l: "at lines (int i) = Next (lines ! i)" using assms(2) by (simp add: at_def index_def)
  show ?thesis
  proof (cases "start \<le> 7")
    case True
    then show ?thesis using assms(1,3) l by (simp add: lockBody_def nameMissing_def)
  next
    case False
    then have "7 \<le> start" by simp
    from cutOut_fromTo [OF this assms(4)] have "cutOut flds 7 (int start) = Next (fromTo 7 start flds)"
      by simp
    then show ?thesis using False assms(1,3) by (simp add: lockBody_def)
  qed
qed

lemma lockBody_no_time:
  assumes "lockFixedColumns entry flds = Next e1" "i < length lines"
    "lockTimeStamp env flds = Next (t, - 1)"
  shows "lockBody env lines entry (i, flds) = Continue (timeStampMissing (lines ! i))"
proof -
  have l: "at lines (int i) = Next (lines ! i)" using assms(2) by (simp add: at_def index_def)
  show ?thesis using assms(1,3) l by (simp add: lockBody_def timeStampMissing_def)
qed

lemma lock_windows:
  assumes f: "lockFixedColumns entry flds = Next e1" and i: "i < length lines"
  shows "(tryGetTimeStampFromStrArr env (lastTokens 5 flds) = (True, t) \<longrightarrow>
            lockBody env lines entry (i, flds) =
              (if length flds - 5 \<le> 7 then Continue (nameMissing (lines ! i))
               else Next (e1\<lparr>L_Time := t,
                              L_Name := TrimSpace (joinFields (fromTo 7 (length flds - 5) flds))\<rparr>)))"
    and "(tryGetTimeStampFromStrArr env (lastTokens 5 flds) = (False, t0) \<and>
          tryGetTimeStampFromStrArr env (lastTokens 6 flds) = (True, t) \<longrightarrow>
            lockBody env lines entry (i, flds) =
              (if length flds - 6 \<le> 7 then Continue (nameMissing (lines ! i))
               else Next (e1\<lparr>L_Time := t,
                              L_Name := TrimSpace (joinFields (fromTo 7 (length flds - 6) flds))\<rparr>)))"
    and "(tryGetTimeStampFromStrArr env (lastTokens 5 flds) = (False, t0) \<and>
          tryGetTimeStampFromStrArr env (lastTokens 6 flds) = (False, t1) \<longrightarrow>
            lockBody env lines entry (i, flds) = Continue (timeStampMissing (lines ! i)))"
proof -
  from lockFixedColumns_ids [OF f] have len: "7 \<le> length flds" by simp
  then have l6: "6 \<le> length flds" by simp
  show "tryGetTimeStampFromStrArr env (lastTokens 5 flds) = (True, t) \<longrightarrow>
            lockBody env lines entry (i, flds) =
              (if length flds - 5 \<le> 7 then Continue (nameMissing (lines ! i))
               else Next (e1\<lparr>L_Time := t,
                              L_Name := TrimSpace (joinFields (fromTo 7 (length flds - 5) flds))\<rparr>))"
  proof
    assume "tryGetTimeStampFromStrArr env (lastTokens 5 flds) = (True, t)"
    from lockTimeStamp_5 [OF l6 this] len
    have "lockTimeStamp env flds = Next (t, int (length flds - 5))" by (simp add: of_nat_diff)
    from lockBody_after_time [OF f i this] show "lockBody env lines entry (i, flds) =
              (if length flds - 5 \<le> 7 then Continue (nameMissing (lines ! i))
               else Next (e1\<lparr>L_Time := t,
                              L_Name := TrimSpace (joinFields (fromTo 7 (length flds - 5) flds))\<rparr>))"
      by simp
  qed
  show "tryGetTimeStampFromStrArr env (lastTokens 5 flds) = (False, t0) \<and>
          tryGetTimeStampFromStrArr env (lastTokens 6 flds) = (True, t) \<longrightarrow>
            lockBody env lines entry (i, flds) =
              (if length flds - 6 \<le> 7 then Continue (nameMissing (lines ! i))
               else Next (e1\<lparr>L_Time := t,
                              L_Name := TrimSpace (joinFields (fromTo 7 (length flds - 6) flds))\<rparr>))"
  proof
    assume a: "tryGetTimeStampFromStrArr env (lastTokens 5 flds) = (False, t0) \<and>
          tryGetTimeStampFromStrArr env (lastTokens 6 flds) = (True, t)"
    from lockTimeStamp_6 [OF l6] a len
    have "lockTimeStamp env flds = Next (t, int (length flds - 6))" by (simp add: of_nat_diff)
    from lockBody_after_time [OF f i this] show "lockBody env lines entry (i, flds) =
              (if length flds - 6 \<le> 7 then Continue (nameMissing (lines ! i))
               else Next (e1\<lparr>L_Time := t,
                              L_Name := TrimSpace (joinFields (fromTo 7 (length flds - 6) flds))\<rparr>))"
      by simp
  qed
  show "tryGetTimeStampFromStrArr env (lastTokens 5 flds) = (False, t0) \<and>
          tryGetTimeStampFromStrArr env (lastTokens 6 flds) = (False, t1) \<longrightarrow>
            lockBody env lines entry (i, flds) = Continue (timeStampMissing (lines ! i))"
  proof
    assume a: "tryGetTimeStampFromStrArr env (lastTokens 5 flds) = (False, t0) \<and>
          tryGetTimeStampFromStrArr env (lastTokens 6 flds) = (False, t1)"
    from lockTimeStamp_none [OF l6] a have "lockTimeStamp env flds = Next (t1, - 1)" by blast
    from lockBody_no_time [OF f i this]
    show "lockBody env lines entry (i, flds) = Continue (timeStampMissing (lines ! i))" .
  qed
qed

lemma sample_fixed_columns:
  "lockFixedColumns LockData_zero sampleLockTokens = Next sampleFixedColumns"
  "lockFixedColumns LockData_zero sampleLockTokens6 = Next sampleFixedColumns"
  "lockFixedColumns LockData_zero sampleLockTokensNoTime = Next sampleFixedColumns"
  by code_simp+

lemma sample_windows:
  "tryGetTimeStampFromStrArr sampleEnv (lastTokens 5 sampleLockTokens) = (True, Instant 1136214245)"
  "tryGetTimeStampFromStrArr sampleEnv (lastTokens 5 sampleLockTokens6) = (False, Instant 1700000000)"
  "tryGetTimeStampFromStrArr sampleEnv (lastTokens 6 sampleLockTokens6) = (True, Instant 1136210645)"
  "tryGetTimeStampFromStrArr sampleEnv (lastTokens 5 sampleLockTokensNoTime) = (False, Instant 1700000000)"
  "tryGetTimeStampFromStrArr sampleEnv (lastTokens 6 sampleLockTokensNoTime) = (False, Instant 1700000000)"
  by code_simp+

lemma sample_names:
  "TrimSpace (joinFields (fromTo 7 (length sampleLockTokens - 5) sampleLockTokens)) = ''file.txt''"
  "TrimSpace (joinFields (fromTo 7 (length sampleLockTokens6 - 6) sampleLockTokens6)) = ''my file.txt''"
  "TrimSpace (joinFields (strictlyBetween 7 8 sampleLockTokens)) = []"
  "length sampleLockTokens - 5 = 8" "length sampleLockTokens6 - 6 = 9"
  by code_simp+

lemma leadingSpace_rune: "leadingSpace s \<noteq> 0 \<Longrightarrow> take (leadingSpace s) s \<in> set spaceRunes"
proof -
  assume "leadingSpace s \<noteq> 0"
  then obtain e es where f: "filter (\<lambda>e. take (length e) s = e) spaceRunes = e # es"
    by (auto simp: leadingSpace_def split: list.splits)
  then have "e \<in> set (filter (\<lambda>e. take (length e) s = e) spaceRunes)" by simp
  then have "e \<in> set spaceRunes" "take (length e) s = e" by auto
  moreover from f have "leadingSpace s = length e" by (simp add: leadingSpace_def)
  ultimately show ?thesis by simp
qed

lemma trailingSpace_rune:
  "trailingSpace s \<noteq> 0 \<Longrightarrow> drop (length s - trailingSpace s) s \<in> set spaceRunes"
proof -
  assume "trailingSpace s \<noteq> 0"
  then obtain e es where
    f: "filter (\<lambda>e. length e \<le> length s \<and> drop (length s - length e) s = e) spaceRunes = e # es"
    by (auto simp: trailingSpace_def split: list.splits)
  then have "e \<in> set (filter (\<lambda>e. length e \<le> length s \<and> drop (length s - length e) s = e) spaceRunes)"
    by simp
  then have "e \<in> set spaceRunes" "drop (length s - length e) s = e" by auto
  moreover from f have "trailingSpace s = length e" by (simp add: trailingSpace_def)
  ultimately show ?thesis by simp
qed

lemma TrimLeftSpace_keeps:
  "c \<in> set s \<Longrightarrow> \<forall>e \<in> set spaceRunes. c \<notin> set e \<Longrightarrow> c \<in> set (TrimLeftSpace s)"
proof (induction s rule: TrimLeftSpace.induct)
  case (1 s)
  show ?case
  proof (cases "leadingSpace s = 0")
    case True
    with "1.prems" show ?thesis by (simp add: TrimLeftSpace.simps [of s])
  next
    case False
    from leadingSpace_rune [OF False] "1.prems"(2) have "c \<notin> set (take (leadingSpace s) s)" by blast
    moreover have "set s = set (take (leadingSpace s) s) \<union> set (drop (leadingSpace s) s)"
      by (metis append_take_drop_id set_append)
    ultimately have "c \<in> set (drop (leadingSpace s) s)" using "1.prems"(1) by blast
    from "1.IH" [OF False this "1.prems"(2)] False show ?thesis
      by (simp add: TrimLeftSpace.simps [of s])
  qed
qed

lemma TrimRightSpace_keeps:
  "c \<in> set s \<Longrightarrow> \<forall>e \<in> set spaceRunes. c \<notin> set e \<Longrightarrow> c \<in> set (TrimRightSpace s)"
proof (induction s rule: TrimRightSpace.induct)
  case (1 s)
  show ?case
  proof (cases "trailingSpace s = 0")
    case True
    with "1.prems" show ?thesis by (simp add: TrimRightSpace.simps [of s])
  next
    case False
    from trailingSpace_rune [OF False] "1.prems"(2)
    have "c \<notin> set (drop (length s - trailingSpace s) s)" by blast
    moreover have "set s = set (take (length s - trailingSpace s) s) \<union>
        set (drop (length s - trailingSpace s) s)"
      by (metis append_take_drop_id set_append)
    ultimately have "c \<in> set (take (length s - trailingSpace s) s)" using "1.prems"(1) by blast
    from "1.IH" [OF False this "1.prems"(2)] False show ?thesis
      by (simp add: TrimRightSpace.simps [of s])
  qed
qed

lemma dash_no_space: "\<forall>e \<in> set spaceRunes. CHR ''-'' \<notin> set e"
  by (simp add: spaceRunes_def)

lemma TrimSpace_keeps_dash: "CHR ''-'' \<in> set s \<Longrightarrow> CHR ''-'' \<in> set (TrimSpace s)"
  by (simp add: TrimSpace_def TrimLeftSpace_keeps TrimRightSpace_keeps dash_no_space)

lemma separator_has_dash: "HasPrefix s separatorPrefix \<Longrightarrow> CHR ''-'' \<in> set s"
proof -
  assume "HasPrefix s separatorPrefix"
  then obtain rest where "s = replicate 41 (CHR ''-'') @ rest"
    by (auto simp: HasPrefix_iff separatorPrefix_replicate)
  then show ?thesis by simp
qed

lemma sample_row_tokens: "tokens sampleLockRow '' '' = sampleLockTokens"
  by code_simp

lemma sample_row_one_line: "CHR 0x0A \<notin> set sampleLockRow"
  by code_simp

lemma sample_record:
  "sampleFixedColumns\<lparr>L_Time := t, L_Name := ''file.txt''\<rparr> =
     \<lparr>L_PID = 1234, L_ClusterNodeId = - 1, L_UserID = 0, L_DenyMode = ''DENY_NONE'',
      L_Access = ''RDONLY'', L_AccessMode = ''NONE'', L_Oplock = ''-'',
      L_SharePath = ''/srv/share'', L_Name = ''file.txt'', L_Time = t\<rparr>"
  by (simp add: sampleFixedColumns_def)

subsection \<open>A well-formed locks table that ends in a newline\<close>

lemma newline_table_lines:
  "Split (sampleLockTable @ NL) NL = [sampleLockHeader, sampleSeparator, sampleLockRow, []]"
  by code_simp

lemma newline_table_known: "lockShapeKnown (sampleLockTable @ NL)"
  by code_simp

lemma newline_table_rows: "dataRows (sampleLockTable @ NL) = [sampleLockTokens, []]"
  by code_simp

lemma newline_table_dash: "CHR ''-'' \<in> set (sampleLockTable @ NL)"
  by code_simp

lemma lockBody_empty_row: "lockBody env lines entry (i, []) = Panic IndexOutOfRange"
  by (simp add: lockBody_def lockFixedColumns_def at_def index_def)

lemma lockBody_sample_no_panic:
  "lockBody env [sampleLockHeader, sampleSeparator, sampleLockRow, []] LockData_zero
     (0, sampleLockTokens) \<noteq> Panic p"
proof -
  have i: "0 < length [sampleLockHeader, sampleSeparator, sampleLockRow, []]" by simp
  note w = lock_windows [OF sample_fixed_columns(1) i, of env]
  obtain b5 t5 where t5: "tryGetTimeStampFromStrArr env (lastTokens 5 sampleLockTokens) = (b5, t5)"
    by (cases "tryGetTimeStampFromStrArr env (lastTokens 5 sampleLockTokens)")
  obtain b6 t6 where t6: "tryGetTimeStampFromStrArr env (lastTokens 6 sampleLockTokens) = (b6, t6)"
    by (cases "tryGetTimeStampFromStrArr env (lastTokens 6 sampleLockTokens)")
  show ?thesis
  proof (cases b5)
    case True
    with w(1) [of t5] t5 show ?thesis by (auto split: if_splits)
  next
    case False
    show ?thesis
    proof (cases b6)
      case True
      with w(2) [of t5 t6] t5 t6 False show ?thesis by (auto split: if_splits)
    next
      case b: False
      with w(3) [of t5 t6] t5 t6 False show ?thesis by auto
    qed
  qed
qed

lemma newline_table_panics: "GetLockData env (sampleLockTable @ NL) = Inl IndexOutOfRange"
proof -
  have "CHR ''-'' \<in> set (TrimSpace (sampleLockTable @ NL))"
    using newline_table_dash by (rule TrimSpace_keeps_dash)
  then have n: "TrimSpace (sampleLockTable @ NL) \<noteq> ''No locked files''" by auto
  have e: "enumerate 0 [sampleLockTokens, []] = [(0, sampleLockTokens), (1, [])]"
    by (simp add: enumerate_simps)
  show ?thesis
  proof (cases "lockBody env [sampleLockHeader, sampleSeparator, sampleLockRow, []] LockData_zero
     (0, sampleLockTokens)")
    case (Panic p)
    with lockBody_sample_no_panic show ?thesis by blast
  next
    case (Continue d)
    then show ?thesis
      using n by (simp add: GetLockData_known [OF newline_table_known] newline_table_lines
          newline_table_rows e lockBody_empty_row)
  next
    case (Next r)
    then show ?thesis
      using n by (simp add: GetLockData_known [OF newline_table_known] newline_table_lines
          newline_table_rows e lockBody_empty_row)
  qed
qed

subsection \<open>Rows that yield a record\<close>








section \<open>The claims\<close>

text \<open>
  C1. Claim: for every input, GetLockData, GetShareData and GetProcessData return normally,
  also when a data row after the separator has fewer tokens than the fixed column positions
  or the timestamp windows require. GetLockData does not: it reads the rows with
  \<open>getFieldMatrix\<close>, which keeps rows of any length, and a row holding the single token
  \<open>1234\<close> makes \<open>fields[1]\<close> panic with an index out of range; so does the empty
  last line of a well-formed table that ends in a newline, at \<open>fields[0]\<close>. The other two
  parsers keep rows of the expected length only and always return
  (\<open>GetShareData_returns\<close>, \<open>GetProcessData_returns\<close>).
\<close>

theorem GetLockData_short_row_panics:
  "GetLockData env (sampleLockHeader @ NL @ sampleSeparator @ NL @ ''1234'') = Inl IndexOutOfRange \<and>
   GetLockData env (sampleLockTable @ NL) = Inl IndexOutOfRange"
proof
  show "GetLockData env (sampleLockHeader @ NL @ sampleSeparator @ NL @ ''1234'') = Inl IndexOutOfRange"
    by code_simp
  show "GetLockData env (sampleLockTable @ NL) = Inl IndexOutOfRange"
    by (rule newline_table_panics)
qed

text \<open>
  C2. Claim: Collect emits a sample only for a metric name that has a registered descriptor,
  and a name without one is logged and skipped. With an empty registry and one statistic
  named \<open>locks\<close>, Collect logs the anomaly and then emits a sample all the same, built on
  the zero descriptor.
\<close>

theorem Collect_emits_without_descriptor:
  "Collect Map.empty (Inr (Some [\<lparr>Name = ''locks'', Help = ''Number of locks'', Value = 3\<rparr>])) =
     Inr ([Verbose ''Request samba_statusd to get prometheus metrics'',
           Verbose ''Handle samba_statusd response and set prometheus metrics'',
           ErrorMessage ''No description found for locks''],
          [\<lparr>desc = Desc_zero, val = 3\<rparr>])"
  by code_simp

text \<open>
  C3. Claim: every record a parser returns has all of its fields populated from the source
  line, also the ShareData records of the cluster-mode branch. The cluster-mode branch
  assigns neither Service nor ConnectedAt: its rows hold no such columns, and the record it
  appends carries in both fields what the entry held before the row was read. Amended: a record
  of GetLockData, of GetProcessData and of the normal-mode branches of GetShareData is the
  same whatever the entry held before the row was read, so every field of it is assigned;
  a record of the cluster-mode branch has PID, ClusterNodeId, Machine, Encryption and
  Signing assigned, and Service and ConnectedAt are what the fresh entry held, the empty
  string and the zero time.
\<close>

theorem every_field_assigned:
  "(GetLockData env data = Inr (lg, ls) \<and> l \<in> set ls \<longrightarrow>
      (\<exists>row \<in> set (enumerate 0 (dataRows data)).
         \<forall>e. lockBody env (Split data NL) e row = Next l)) \<and>
   (GetProcessData data = Inr (lg', ps) \<and> p \<in> set ps \<longrightarrow>
      (\<exists>flds \<in> set (dataRows data). \<forall>e. processBody (sambaVersionOf data) e flds = Next p)) \<and>
   (GetShareData env data = Inr (lg'', ss) \<and> s \<in> set ss \<and> \<not> clusterHeader data \<longrightarrow>
      (\<exists>flds \<in> set (dataRows data).
         (\<forall>e. shareBody12 env e flds = Next s) \<or> (\<forall>e. shareBody11 env e flds = Next s))) \<and>
   (GetShareData env data = Inr (lg'', ss) \<and> s \<in> set ss \<and> clusterHeader data \<longrightarrow>
      S_Service s = [] \<and> S_ConnectedAt s = zeroTime \<and>
      (\<exists>flds \<in> set (dataRows data).
         \<forall>e. shareBodyCluster e flds =
               Next (s\<lparr>S_Service := S_Service e, S_ConnectedAt := S_ConnectedAt e\<rparr>)))"
proof -
  have c1: "GetLockData env data = Inr (lg, ls) \<and> l \<in> set ls \<longrightarrow>
      (\<exists>row \<in> set (enumerate 0 (dataRows data)).
         \<forall>e. lockBody env (Split data NL) e row = Next l)"
  proof
    assume "GetLockData env data = Inr (lg, ls) \<and> l \<in> set ls"
    then obtain row where m: "row \<in> set (enumerate 0 (dataRows data))"
      and b: "lockBody env (Split data NL) LockData_zero row = Next l"
      using GetLockData_origin [of env data lg ls l] by auto
    from b have "\<forall>e. lockBody env (Split data NL) e row = Next l"
      using lockBody_any_entry by blast
    with m show "\<exists>row \<in> set (enumerate 0 (dataRows data)).
         \<forall>e. lockBody env (Split data NL) e row = Next l" by blast
  qed
  have c2: "GetProcessData data = Inr (lg', ps) \<and> p \<in> set ps \<longrightarrow>
      (\<exists>flds \<in> set (dataRows data). \<forall>e. processBody (sambaVersionOf data) e flds = Next p)"
  proof
    assume "GetProcessData data = Inr (lg', ps) \<and> p \<in> set ps"
    then obtain flds where m: "flds \<in> set (rowsOfLength 8 data)"
      and b: "processBody (sambaVersionOf data) ProcessData_zero flds = Next p"
      using GetProcessData_origin [of data lg' ps p] by auto
    from m have len: "length flds = 8" and d: "flds \<in> set (dataRows data)"
      using rowsOfLength_subset by auto
    from processBody_any_entry [OF len b]
    have "\<forall>e. processBody (sambaVersionOf data) e flds = Next p" by blast
    with d show "\<exists>flds \<in> set (dataRows data). \<forall>e. processBody (sambaVersionOf data) e flds = Next p"
      by blast
  qed
  have c3: "GetShareData env data = Inr (lg'', ss) \<and> s \<in> set ss \<and> \<not> clusterHeader data \<longrightarrow>
      (\<exists>flds \<in> set (dataRows data).
         (\<forall>e. shareBody12 env e flds = Next s) \<or> (\<forall>e. shareBody11 env e flds = Next s))"
  proof
    assume a: "GetShareData env data = Inr (lg'', ss) \<and> s \<in> set ss \<and> \<not> clusterHeader data"
    with GetShareData_origin [of env data lg'' ss s] consider
      flds where "flds \<in> set (rowsOfLength 12 data)" "shareBody12 env ShareData_zero flds = Next s"
      | flds where "flds \<in> set (rowsOfLength 11 data)" "shareBody11 env ShareData_zero flds = Next s"
      by auto
    then show "\<exists>flds \<in> set (dataRows data).
         (\<forall>e. shareBody12 env e flds = Next s) \<or> (\<forall>e. shareBody11 env e flds = Next s)"
    proof cases
      case 1
      from 1(1) have len: "length flds = 12" and d: "flds \<in> set (dataRows data)"
        using rowsOfLength_subset by auto
      from shareBody12_any_entry [OF len 1(2)] have "\<forall>e. shareBody12 env e flds = Next s" by blast
      with d show ?thesis by blast
    next
      case 2
      from 2(1) have len: "length flds = 11" and d: "flds \<in> set (dataRows data)"
        using rowsOfLength_subset by auto
      from shareBody11_any_entry [OF len 2(2)] have "\<forall>e. shareBody11 env e flds = Next s" by blast
      with d show ?thesis by blast
    qed
  qed
  have c4: "GetShareData env data = Inr (lg'', ss) \<and> s \<in> set ss \<and> clusterHeader data \<longrightarrow>
      S_Service s = [] \<and> S_ConnectedAt s = zeroTime \<and>
      (\<exists>flds \<in> set (dataRows data).
         \<forall>e. shareBodyCluster e flds =
               Next (s\<lparr>S_Service := S_Service e, S_ConnectedAt := S_ConnectedAt e\<rparr>))"
  proof
    assume a: "GetShareData env data = Inr (lg'', ss) \<and> s \<in> set ss \<and> clusterHeader data"
    with GetShareData_origin [of env data lg'' ss s] obtain flds where
      m: "flds \<in> set (rowsOfLength 8 data)" and b: "shareBodyCluster ShareData_zero flds = Next s"
      by auto
    from m have len: "length flds = 8" and d: "flds \<in> set (dataRows data)"
      using rowsOfLength_subset by auto
    note any = shareBodyCluster_any_entry [OF len b]
    from any have z: "S_Service s = []" "S_ConnectedAt s = zeroTime"
      by (simp_all add: ShareData_zero_def)
    from any have "\<forall>e. shareBodyCluster e flds =
               Next (s\<lparr>S_Service := S_Service e, S_ConnectedAt := S_ConnectedAt e\<rparr>)" by blast
    with z d show "S_Service s = [] \<and> S_ConnectedAt s = zeroTime \<and>
      (\<exists>flds \<in> set (dataRows data).
         \<forall>e. shareBodyCluster e flds =
               Next (s\<lparr>S_Service := S_Service e, S_ConnectedAt := S_ConnectedAt e\<rparr>))" by blast
  qed
  from c1 c2 c3 c4 show ?thesis by (intro conjI)
qed

theorem every_field_assigned_witness:
  "(\<exists>row \<in> set (enumerate 0 (dataRows sampleLockTable)).
      \<forall>e. lockBody sampleEnv (Split sampleLockTable NL) e row = Next sampleLockRecord) \<and>
   (\<exists>flds \<in> set (dataRows sampleProcessTable).
      \<forall>e. processBody (sambaVersionOf sampleProcessTable) e flds = Next sampleProcessRecord) \<and>
   (\<exists>flds \<in> set (dataRows sampleShareTable).
      (\<forall>e. shareBody12 sampleEnv e flds = Next sampleShareRecord) \<or>
      (\<forall>e. shareBody11 sampleEnv e flds = Next sampleShareRecord)) \<and>
   (\<exists>flds \<in> set (dataRows sampleClusterShareTable).
      \<forall>e. shareBodyCluster e flds =
            Next (sampleClusterShareRecord\<lparr>S_Service := S_Service e, S_ConnectedAt := S_ConnectedAt e\<rparr>))"
proof -
  have n: "\<not> clusterHeader sampleShareTable" by code_simp
  have c: "clusterHeader sampleClusterShareTable" by code_simp
  note t = every_field_assigned [where env = sampleEnv]
  from t [where data = sampleLockTable and lg = "[]" and ls = "[sampleLockRecord]"
      and l = sampleLockRecord] sample_locks
  have 1: "\<exists>row \<in> set (enumerate 0 (dataRows sampleLockTable)).
      \<forall>e. lockBody sampleEnv (Split sampleLockTable NL) e row = Next sampleLockRecord" by simp
  from t [where data = sampleProcessTable and lg' = "[]" and ps = "[sampleProcessRecord]"
      and p = sampleProcessRecord] sample_processes
  have 2: "\<exists>flds \<in> set (dataRows sampleProcessTable).
      \<forall>e. processBody (sambaVersionOf sampleProcessTable) e flds = Next sampleProcessRecord" by simp
  from t [where data = sampleShareTable and lg'' = "[]" and ss = "[sampleShareRecord]"
      and s = sampleShareRecord] sample_shares n
  have 3: "\<exists>flds \<in> set (dataRows sampleShareTable).
      (\<forall>e. shareBody12 sampleEnv e flds = Next sampleShareRecord) \<or>
      (\<forall>e. shareBody11 sampleEnv e flds = Next sampleShareRecord)" by simp
  from t [where data = sampleClusterShareTable and lg'' = "[]" and ss = "[sampleClusterShareRecord]"
      and s = sampleClusterShareRecord] sample_cluster_shares c
  have 4: "\<exists>flds \<in> set (dataRows sampleClusterShareTable).
      \<forall>e. shareBodyCluster e flds =
            Next (sampleClusterShareRecord\<lparr>S_Service := S_Service e, S_ConnectedAt := S_ConnectedAt e\<rparr>)"
    by simp
  from 1 2 3 4 show ?thesis by blast
qed

theorem cluster_share_record_counterexample:
  "GetShareData sampleEnv sampleClusterShareTable =
     Inr ([], [\<lparr>S_Service = [], S_PID = 1117, S_ClusterNodeId = 2,
                 S_Machine = ''192.168.1.242 (ipv4:192.168.1.242:42296)'',
                 S_ConnectedAt = zeroTime, S_Encryption = ''-'', S_Signing = ''-''\<rparr>]) \<and>
   shareBodyCluster (ShareData_zero\<lparr>S_Service := ''IPC$''\<rparr>)
     [''2:1117'', ''nobody'', ''nogroup'', ''192.168.1.242'', ''(ipv4:192.168.1.242:42296)'',
      ''SMB3_11'', ''-'', ''-''] =
     Next \<lparr>S_Service = ''IPC$'', S_PID = 1117, S_ClusterNodeId = 2,
            S_Machine = ''192.168.1.242 (ipv4:192.168.1.242:42296)'',
            S_ConnectedAt = zeroTime, S_Encryption = ''-'', S_Signing = ''-''\<rparr>"
proof
  show "GetShareData sampleEnv sampleClusterShareTable =
     Inr ([], [\<lparr>S_Service = [], S_PID = 1117, S_ClusterNodeId = 2,
                 S_Machine = ''192.168.1.242 (ipv4:192.168.1.242:42296)'',
                 S_ConnectedAt = zeroTime, S_Encryption = ''-'', S_Signing = ''-''\<rparr>])"
    by (simp add: sample_cluster_shares sampleClusterShareRecord_def)
  show "shareBodyCluster (ShareData_zero\<lparr>S_Service := ''IPC$''\<rparr>)
     [''2:1117'', ''nobody'', ''nogroup'', ''192.168.1.242'', ''(ipv4:192.168.1.242:42296)'',
      ''SMB3_11'', ''-'', ''-''] =
     Next \<lparr>S_Service = ''IPC$'', S_PID = 1117, S_ClusterNodeId = 2,
            S_Machine = ''192.168.1.242 (ipv4:192.168.1.242:42296)'',
            S_ConnectedAt = zeroTime, S_Encryption = ''-'', S_Signing = ''-''\<rparr>"
    by code_simp
qed

text \<open>
  C4. Claim: ClusterNodeId is \<open>- 1\<close> exactly when the identifier token has no colon, and is
  never negative when it has one. The parsers take whatever integer stands before the colon,
  so \<open>-5:1117\<close> gives the node id \<open>- 5\<close>. Amended: every record is the one the loop body
  yields from a data row of the input, and the identifier token of that row has either no
  colon, and then ClusterNodeId is \<open>- 1\<close>, or a colon, and then ClusterNodeId is the integer
  \<open>strconv.Atoi\<close> reads before the first colon, which is negative only when the token
  begins with a minus sign. The identifier token is the first of the row, the second in the
  normal-mode branches of GetShareData.
\<close>

theorem node_id_from_token:
  "(GetLockData env data = Inr (lg, ls) \<and> l \<in> set ls \<longrightarrow>
      (\<exists>row \<in> set (enumerate 0 (dataRows data)).
         lockBody env (Split data NL) LockData_zero row = Next l \<and>
         nodeIdFromToken (snd row ! 0) (L_ClusterNodeId l))) \<and>
   (GetProcessData data = Inr (lg', ps) \<and> p \<in> set ps \<longrightarrow>
      (\<exists>flds \<in> set (dataRows data).
         processBody (sambaVersionOf data) ProcessData_zero flds = Next p \<and>
         nodeIdFromToken (flds ! 0) (P_ClusterNodeId p))) \<and>
   (GetShareData env data = Inr (lg'', ss) \<and> s \<in> set ss \<longrightarrow>
      (\<exists>flds \<in> set (dataRows data).
         clusterHeader data \<and> shareBodyCluster ShareData_zero flds = Next s \<and>
           nodeIdFromToken (flds ! 0) (S_ClusterNodeId s) \<or>
         \<not> clusterHeader data \<and>
           (shareBody12 env ShareData_zero flds = Next s \<or>
            shareBody11 env ShareData_zero flds = Next s) \<and>
           nodeIdFromToken (flds ! 1) (S_ClusterNodeId s)))"
proof -
  have c1: "GetLockData env data = Inr (lg, ls) \<and> l \<in> set ls \<longrightarrow>
      (\<exists>row \<in> set (enumerate 0 (dataRows data)).
         lockBody env (Split data NL) LockData_zero row = Next l \<and>
         nodeIdFromToken (snd row ! 0) (L_ClusterNodeId l))"
  proof
    assume "GetLockData env data = Inr (lg, ls) \<and> l \<in> set ls"
    then obtain i flds where m: "(i, flds) \<in> set (enumerate 0 (dataRows data))"
      and b: "lockBody env (Split data NL) LockData_zero (i, flds) = Next l"
      using GetLockData_origin [of env data lg ls l] by auto
    from lockBody_ids [OF b] have "nodeIdFromToken (flds ! 0) (L_ClusterNodeId l)"
      using clusterPid_nodeId by blast
    with m b show "\<exists>row \<in> set (enumerate 0 (dataRows data)).
         lockBody env (Split data NL) LockData_zero row = Next l \<and>
         nodeIdFromToken (snd row ! 0) (L_ClusterNodeId l)"
      by force
  qed
  have c2: "GetProcessData data = Inr (lg', ps) \<and> p \<in> set ps \<longrightarrow>
      (\<exists>flds \<in> set (dataRows data).
         processBody (sambaVersionOf data) ProcessData_zero flds = Next p \<and>
         nodeIdFromToken (flds ! 0) (P_ClusterNodeId p))"
  proof
    assume "GetProcessData data = Inr (lg', ps) \<and> p \<in> set ps"
    then obtain flds where m: "flds \<in> set (rowsOfLength 8 data)"
      and b: "processBody (sambaVersionOf data) ProcessData_zero flds = Next p"
      using GetProcessData_origin [of data lg' ps p] by auto
    from processBody_ids [OF b] have "nodeIdFromToken (flds ! 0) (P_ClusterNodeId p)"
      using clusterPid_nodeId by blast
    moreover from m have "flds \<in> set (dataRows data)" using rowsOfLength_subset by blast
    ultimately show "\<exists>flds \<in> set (dataRows data).
         processBody (sambaVersionOf data) ProcessData_zero flds = Next p \<and>
         nodeIdFromToken (flds ! 0) (P_ClusterNodeId p)"
      using b by blast
  qed
  have c3: "GetShareData env data = Inr (lg'', ss) \<and> s \<in> set ss \<longrightarrow>
      (\<exists>flds \<in> set (dataRows data).
         clusterHeader data \<and> shareBodyCluster ShareData_zero flds = Next s \<and>
           nodeIdFromToken (flds ! 0) (S_ClusterNodeId s) \<or>
         \<not> clusterHeader data \<and>
           (shareBody12 env ShareData_zero flds = Next s \<or>
            shareBody11 env ShareData_zero flds = Next s) \<and>
           nodeIdFromToken (flds ! 1) (S_ClusterNodeId s))"
  proof
    assume a: "GetShareData env data = Inr (lg'', ss) \<and> s \<in> set ss"
    show "\<exists>flds \<in> set (dataRows data).
         clusterHeader data \<and> shareBodyCluster ShareData_zero flds = Next s \<and>
           nodeIdFromToken (flds ! 0) (S_ClusterNodeId s) \<or>
         \<not> clusterHeader data \<and>
           (shareBody12 env ShareData_zero flds = Next s \<or>
            shareBody11 env ShareData_zero flds = Next s) \<and>
           nodeIdFromToken (flds ! 1) (S_ClusterNodeId s)"
    proof (cases "clusterHeader data")
      case True
      with a GetShareData_origin [of env data lg'' ss s] obtain flds where
        m: "flds \<in> set (rowsOfLength 8 data)" and b: "shareBodyCluster ShareData_zero flds = Next s"
        by auto
      from shareBodyCluster_ids [OF b] have "nodeIdFromToken (flds ! 0) (S_ClusterNodeId s)"
        using clusterPid_nodeId by blast
      moreover from m have "flds \<in> set (dataRows data)" using rowsOfLength_subset by blast
      ultimately show ?thesis using True b by blast
    next
      case False
      with a GetShareData_origin [of env data lg'' ss s] consider
        flds where "flds \<in> set (rowsOfLength 12 data)" "shareBody12 env ShareData_zero flds = Next s"
        | flds where "flds \<in> set (rowsOfLength 11 data)" "shareBody11 env ShareData_zero flds = Next s"
        by auto
      then show ?thesis
      proof cases
        case 1
        from shareBody12_ids [OF 1(2)] have "nodeIdFromToken (flds ! 1) (S_ClusterNodeId s)"
          using clusterPid_nodeId by blast
        moreover from 1(1) have "flds \<in> set (dataRows data)" using rowsOfLength_subset by blast
        ultimately show ?thesis using False 1(2) by blast
      next
        case 2
        from shareBody11_ids [OF 2(2)] have "nodeIdFromToken (flds ! 1) (S_ClusterNodeId s)"
          using clusterPid_nodeId by blast
        moreover from 2(1) have "flds \<in> set (dataRows data)" using rowsOfLength_subset by blast
        ultimately show ?thesis using False 2(2) by blast
      qed
    qed
  qed
  from c1 c2 c3 show ?thesis by (intro conjI)
qed

theorem node_id_from_token_witness:
  "(\<exists>row \<in> set (enumerate 0 (dataRows sampleLockTable)).
      lockBody sampleEnv (Split sampleLockTable NL) LockData_zero row = Next sampleLockRecord \<and>
      nodeIdFromToken (snd row ! 0) (- 1)) \<and>
   (\<exists>flds \<in> set (dataRows sampleClusterProcessTable).
      processBody (sambaVersionOf sampleClusterProcessTable) ProcessData_zero flds
        = Next sampleClusterProcessRecord \<and>
      nodeIdFromToken (flds ! 0) 2) \<and>
   (\<exists>flds \<in> set (dataRows sampleShareTable).
      (shareBody12 sampleEnv ShareData_zero flds = Next sampleShareRecord \<or>
       shareBody11 sampleEnv ShareData_zero flds = Next sampleShareRecord) \<and>
      nodeIdFromToken (flds ! 1) (- 1)) \<and>
   (\<exists>flds \<in> set (dataRows sampleClusterShareTable).
      shareBodyCluster ShareData_zero flds = Next sampleClusterShareRecord \<and>
      nodeIdFromToken (flds ! 0) 2)"
proof -
  have l: "L_ClusterNodeId sampleLockRecord = - 1"
    and p: "P_ClusterNodeId sampleClusterProcessRecord = 2"
    and s: "S_ClusterNodeId sampleShareRecord = - 1"
    and c: "S_ClusterNodeId sampleClusterShareRecord = 2"
    by (simp_all add: sampleLockRecord_def sampleClusterProcessRecord_def sampleShareRecord_def
        sampleClusterShareRecord_def)
  have n: "\<not> clusterHeader sampleShareTable" by code_simp
  have h: "clusterHeader sampleClusterShareTable" by code_simp
  from node_id_from_token [where env = sampleEnv and data = sampleLockTable and lg = "[]"
      and ls = "[sampleLockRecord]" and l = sampleLockRecord] sample_locks l
  have 1: "\<exists>row \<in> set (enumerate 0 (dataRows sampleLockTable)).
      lockBody sampleEnv (Split sampleLockTable NL) LockData_zero row = Next sampleLockRecord \<and>
      nodeIdFromToken (snd row ! 0) (- 1)" by simp
  from node_id_from_token [where data = sampleClusterProcessTable and lg' = "[]"
      and ps = "[sampleClusterProcessRecord]" and p = sampleClusterProcessRecord]
    sample_cluster_processes p
  have 2: "\<exists>flds \<in> set (dataRows sampleClusterProcessTable).
      processBody (sambaVersionOf sampleClusterProcessTable) ProcessData_zero flds
        = Next sampleClusterProcessRecord \<and>
      nodeIdFromToken (flds ! 0) 2" by simp
  from node_id_from_token [where env = sampleEnv and data = sampleShareTable and lg'' = "[]"
      and ss = "[sampleShareRecord]" and s = sampleShareRecord] sample_shares s n
  have 3: "\<exists>flds \<in> set (dataRows sampleShareTable).
      (shareBody12 sampleEnv ShareData_zero flds = Next sampleShareRecord \<or>
       shareBody11 sampleEnv ShareData_zero flds = Next sampleShareRecord) \<and>
      nodeIdFromToken (flds ! 1) (- 1)" by simp
  from node_id_from_token [where env = sampleEnv and data = sampleClusterShareTable and lg'' = "[]"
      and ss = "[sampleClusterShareRecord]" and s = sampleClusterShareRecord]
    sample_cluster_shares c h
  have 4: "\<exists>flds \<in> set (dataRows sampleClusterShareTable).
      shareBodyCluster ShareData_zero flds = Next sampleClusterShareRecord \<and>
      nodeIdFromToken (flds ! 0) 2" by simp
  from 1 2 3 4 show ?thesis by blast
qed

theorem negative_node_id_counterexample:
  "GetProcessData negativeNodeProcessTable =
     Inr ([], [\<lparr>P_PID = 1117, P_ClusterNodeId = - 5, P_UserID = 1080, P_GroupID = 117,
                 P_Machine = ''192.168.1.242 (ipv4:192.168.1.242:42296)'',
                 P_ProtocolVersion = ''SMB3_11'', P_Encryption = ''-'', P_Signing = ''-'',
                 P_SambaVersion = ''4.11.6-Ubuntu''\<rparr>])"
  by code_simp

text \<open>
  C5. A locks table made of a header line with the expected 9 double-space-separated fields,
  \<open>Pid\<close> first and \<open>Oplock\<close> sixth, a separator line, and the single data row
  \<open>1234 0 DENY_NONE RDONLY NONE - /srv/share file.txt Mon Jan 2 15:04:05 2006\<close> parses to
  exactly one record, with PID 1234, ClusterNodeId \<open>- 1\<close>, Name \<open>file.txt\<close> and the
  time the Go library parses from \<open>Mon Jan 2 15:04:05 2006\<close>. Nothing is logged.
\<close>

theorem known_good_locks_table:
  assumes h: "CHR 0x0A \<notin> set h" "\<not> HasPrefix h separatorPrefix" "lockHeaderKnown (tokens h ''  '')"
    and s: "CHR 0x0A \<notin> set s" "HasPrefix s separatorPrefix"
    and t: "tryGetTimeStampFromStrArr env [''Mon'', ''Jan'', ''2'', ''15:04:05'', ''2006''] = (True, t)"
  shows "GetLockData env (h @ NL @ s @ NL @ sampleLockRow) =
           Inr ([], [\<lparr>L_PID = 1234, L_ClusterNodeId = - 1, L_UserID = 0, L_DenyMode = ''DENY_NONE'',
                       L_Access = ''RDONLY'', L_AccessMode = ''NONE'', L_Oplock = ''-'',
                       L_SharePath = ''/srv/share'', L_Name = ''file.txt'', L_Time = t\<rparr>])"
proof -
  define data where "data = h @ NL @ s @ NL @ sampleLockRow"
  have lines: "Split data NL = [h, s, sampleLockRow]"
    using h(1) s(1) sample_row_one_line
    by (simp add: data_def NL_def Split_char_append Split_char_notin)
  have sep: "findSeperatorLineIndex [h, s, sampleLockRow] = 1"
    using h(2) s(2) by (simp add: findSeperatorLineIndex_def)
  have known: "lockShapeKnown data"
    using h(3) by (simp add: lockShapeKnown_def headerFields_def Let_def lines sep)
  have "CHR ''-'' \<in> set data" using separator_has_dash [OF s(2)] by (simp add: data_def)
  then have "CHR ''-'' \<in> set (TrimSpace data)" by (rule TrimSpace_keeps_dash)
  then have nlf: "TrimSpace data \<noteq> ''No locked files''" by auto
  have rows: "dataRows data = [sampleLockTokens]"
    by (simp add: dataRows_def Let_def lines sep getFieldMatrix_tokens sample_row_tokens)
  have w: "lastTokens 5 sampleLockTokens = [''Mon'', ''Jan'', ''2'', ''15:04:05'', ''2006'']"
    by code_simp
  have i: "0 < length [h, s, sampleLockRow]" by simp
  from lock_windows(1) [OF sample_fixed_columns(1) i, of env t] t w sample_names
  have body: "lockBody env [h, s, sampleLockRow] LockData_zero (0, sampleLockTokens) =
      Next (sampleFixedColumns\<lparr>L_Time := t, L_Name := ''file.txt''\<rparr>)"
    by simp
  have "GetLockData env data =
      rangeLoop (lockBody env [h, s, sampleLockRow] LockData_zero) [(0, sampleLockTokens)] ([], [])"
    using known nlf by (simp add: GetLockData_known lines rows enumerate_simps)
  also have "\<dots> = Inr ([], [sampleFixedColumns\<lparr>L_Time := t, L_Name := ''file.txt''\<rparr>])"
    by (simp add: body)
  finally show ?thesis by (simp add: data_def sample_record)
qed

theorem known_good_locks_table_witness:
  "GetLockData sampleEnv (sampleLockHeader @ NL @ sampleSeparator @ NL @ sampleLockRow) =
     Inr ([], [\<lparr>L_PID = 1234, L_ClusterNodeId = - 1, L_UserID = 0, L_DenyMode = ''DENY_NONE'',
                 L_Access = ''RDONLY'', L_AccessMode = ''NONE'', L_Oplock = ''-'',
                 L_SharePath = ''/srv/share'', L_Name = ''file.txt'',
                 L_Time = Instant 1136214245\<rparr>])"
proof -
  have h: "CHR 0x0A \<notin> set sampleLockHeader" "\<not> HasPrefix sampleLockHeader separatorPrefix"
    "lockHeaderKnown (tokens sampleLockHeader ''  '')"
    by code_simp+
  have s: "CHR 0x0A \<notin> set sampleSeparator" "HasPrefix sampleSeparator separatorPrefix"
    by code_simp+
  have t: "tryGetTimeStampFromStrArr sampleEnv [''Mon'', ''Jan'', ''2'', ''15:04:05'', ''2006'']
             = (True, Instant 1136214245)"
    by code_simp
  from known_good_locks_table [OF h s t] show ?thesis .
qed

text \<open>
  C6. Claim: a lock row is first tried with its last 5 tokens against the ordered patterns,
  then with its last 6; the first match fixes the time stamp and the start index; Name is the
  trimmed join of the tokens strictly between index 7 and the start index; a row without a
  match, or with a start index of 7 or less, yields no record. The code joins the tokens from
  index 7 on, that token included: in the sample row the start index is 8 and Name is the
  token at index 7, where no token lies strictly between 7 and 8. Amended, for a row that has
  passed the fixed columns: as claimed, with Name the trimmed join of the tokens from index 7
  up to, not including, the start index.
\<close>

theorem lock_time_stamp_and_name:
  assumes "lockFixedColumns entry flds = Next e1" and "i < length lines"
  shows "tryGetTimeStampFromStrArr env w =
           (case firstMatch (timeStampAttempts env (TrimSpace (joinFields w))) of
              Some t \<Rightarrow> (True, t) | None \<Rightarrow> (False, Now env)) \<and>
         (tryGetTimeStampFromStrArr env (lastTokens 5 flds) = (True, t) \<longrightarrow>
            lockBody env lines entry (i, flds) =
              (if length flds - 5 \<le> 7 then Continue (nameMissing (lines ! i))
               else Next (e1\<lparr>L_Time := t,
                              L_Name := TrimSpace (joinFields (fromTo 7 (length flds - 5) flds))\<rparr>))) \<and>
         (tryGetTimeStampFromStrArr env (lastTokens 5 flds) = (False, t0) \<and>
          tryGetTimeStampFromStrArr env (lastTokens 6 flds) = (True, t) \<longrightarrow>
            lockBody env lines entry (i, flds) =
              (if length flds - 6 \<le> 7 then Continue (nameMissing (lines ! i))
               else Next (e1\<lparr>L_Time := t,
                              L_Name := TrimSpace (joinFields (fromTo 7 (length flds - 6) flds))\<rparr>))) \<and>
         (tryGetTimeStampFromStrArr env (lastTokens 5 flds) = (False, t0) \<and>
          tryGetTimeStampFromStrArr env (lastTokens 6 flds) = (False, t1) \<longrightarrow>
            lockBody env lines entry (i, flds) = Continue (timeStampMissing (lines ! i)))"
  using tryGet_firstMatch [of env w]
    lock_windows(1) [OF assms, where env = env and t = t]
    lock_windows(2) [OF assms, where env = env and t = t and ?t0.0 = t0]
    lock_windows(3) [OF assms, where env = env and ?t0.0 = t0 and ?t1.0 = t1]
  by (intro conjI)

theorem lock_time_stamp_and_name_witness:
  "lockBody sampleEnv [sampleLockHeader] LockData_zero (0, sampleLockTokens) =
     Next (sampleFixedColumns\<lparr>L_Time := Instant 1136214245, L_Name := ''file.txt''\<rparr>) \<and>
   lockBody sampleEnv [sampleLockHeader] LockData_zero (0, sampleLockTokens6) =
     Next (sampleFixedColumns\<lparr>L_Time := Instant 1136210645, L_Name := ''my file.txt''\<rparr>) \<and>
   lockBody sampleEnv [sampleLockHeader] LockData_zero (0, sampleLockTokensNoTime) =
     Continue (timeStampMissing sampleLockHeader)"
proof -
  have i: "(0::nat) < length [sampleLockHeader]" by simp
  from lock_time_stamp_and_name [OF sample_fixed_columns(1) i, where env = sampleEnv
      and t = "Instant 1136214245"] sample_windows(1) sample_names
  have 1: "lockBody sampleEnv [sampleLockHeader] LockData_zero (0, sampleLockTokens) =
     Next (sampleFixedColumns\<lparr>L_Time := Instant 1136214245, L_Name := ''file.txt''\<rparr>)"
    by simp
  from lock_time_stamp_and_name [OF sample_fixed_columns(2) i, where env = sampleEnv
      and t = "Instant 1136210645" and ?t0.0 = "Instant 1700000000"] sample_windows(2,3) sample_names
  have 2: "lockBody sampleEnv [sampleLockHeader] LockData_zero (0, sampleLockTokens6) =
     Next (sampleFixedColumns\<lparr>L_Time := Instant 1136210645, L_Name := ''my file.txt''\<rparr>)"
    by simp
  from lock_time_stamp_and_name [OF sample_fixed_columns(3) i, where env = sampleEnv
      and ?t0.0 = "Instant 1700000000" and ?t1.0 = "Instant 1700000000"] sample_windows(4,5)
  have 3: "lockBody sampleEnv [sampleLockHeader] LockData_zero (0, sampleLockTokensNoTime) =
     Continue (timeStampMissing sampleLockHeader)"
    by simp
  from 1 2 3 show ?thesis by blast
qed

theorem name_starts_at_index_7_counterexample:
  "lockTimeStamp sampleEnv sampleLockTokens = Next (Instant 1136214245, 8) \<and>
   lockBody sampleEnv [sampleLockHeader] LockData_zero (0, sampleLockTokens) =
     Next (sampleFixedColumns\<lparr>L_Time := Instant 1136214245, L_Name := ''file.txt''\<rparr>) \<and>
   TrimSpace (joinFields (strictlyBetween 7 8 sampleLockTokens)) = [] \<and>
   sampleLockTokens ! 7 = ''file.txt''"
  by code_simp



text \<open>
  C8. When the shape of the table is not known, the parser returns the empty collection,
  whatever the rows below the separator hold: for the locks and the shares table when the
  header above the separator has not the expected field count and column names, for the
  process table also when the line two above the separator does not begin with the
  \<open>Samba version\<close> banner. Nothing is logged either.
\<close>

theorem unknown_shape_gives_empty:
  "(\<not> lockShapeKnown data \<longrightarrow> GetLockData env data = Inr ([], [])) \<and>
   (\<not> shareShapeKnown data \<longrightarrow> GetShareData env data = Inr ([], [])) \<and>
   (\<not> processShapeKnown data \<longrightarrow> GetProcessData data = Inr ([], []))"
  using lock_shape [of data env] share_shape [of data env] process_shape [of data] by blast

theorem unknown_shape_gives_empty_witness:
  "GetLockData sampleEnv misheadedLockTable = Inr ([], []) \<and>
   GetShareData sampleEnv misheadedShareTable = Inr ([], []) \<and>
   GetProcessData bannerlessProcessTable = Inr ([], [])"
proof -
  have l: "\<not> lockShapeKnown misheadedLockTable" by code_simp
  have s: "\<not> shareShapeKnown misheadedShareTable" by code_simp
  have p: "\<not> processShapeKnown bannerlessProcessTable" by code_simp
  show ?thesis
    using unknown_shape_gives_empty [where data = misheadedLockTable and env = sampleEnv]
      unknown_shape_gives_empty [where data = misheadedShareTable and env = sampleEnv]
      unknown_shape_gives_empty [where data = bannerlessProcessTable] l s p
    by blast
qed

text \<open>
  C9. In a process row whose identifier token parses, the user field \<open>nobody\<close> gives
  UserID \<open>- 1\<close> and the group field \<open>nogroup\<close> gives GroupID \<open>- 1\<close>, although neither
  is a number for \<open>strconv.Atoi\<close>; any other user or group field that is no number ends the
  pass with one logged line and no record, and the loop goes on with the rows that follow.
\<close>

theorem nobody_and_nogroup:
  assumes "length flds = 8" and "clusterPid (flds ! 0) a b c = Next (node, pid)"
  shows "(flds ! 1 = ''nobody'' \<and> flds ! 2 = ''nogroup'' \<longrightarrow>
            (\<exists>r. processBody v e flds = Next r \<and> P_UserID r = - 1 \<and> P_GroupID r = - 1)) \<and>
         (flds ! 1 = ''nobody'' \<and> flds ! 2 \<noteq> ''nogroup'' \<and> Atoi (flds ! 2) = Inr gid \<longrightarrow>
            (\<exists>r. processBody v e flds = Next r \<and> P_UserID r = - 1 \<and> P_GroupID r = gid)) \<and>
         (flds ! 1 \<noteq> ''nobody'' \<and> Atoi (flds ! 1) = Inr uid \<and> flds ! 2 = ''nogroup'' \<longrightarrow>
            (\<exists>r. processBody v e flds = Next r \<and> P_UserID r = uid \<and> P_GroupID r = - 1)) \<and>
         (flds ! 1 \<noteq> ''nobody'' \<and> Atoi (flds ! 1) = Inl er \<longrightarrow>
            processBody v e flds =
              Continue (ErrorWithAddition er ''while getting ProcessData UserID'')) \<and>
         ((flds ! 1 = ''nobody'' \<or> Atoi (flds ! 1) = Inr uid) \<and>
          flds ! 2 \<noteq> ''nogroup'' \<and> Atoi (flds ! 2) = Inl er \<longrightarrow>
            processBody v e flds =
              Continue (ErrorWithAddition er ''while getting ProcessData GroupID'')) \<and>
         (processBody v e flds = Continue d \<longrightarrow>
            rangeLoop (processBody v e) (flds # rest) (lg, ret) =
            rangeLoop (processBody v e) rest (lg @ [d], ret)) \<and>
         Atoi ''nobody'' = Inl (NumError ''Atoi'' ''nobody'' ErrSyntax) \<and>
         Atoi ''nogroup'' = Inl (NumError ''Atoi'' ''nogroup'' ErrSyntax)"
proof -
  have cp: "clusterPid (flds ! 0) ''while getting ProcessData ClusterNodeId''
              ''while getting ProcessData PID (with :)'' ''while getting ProcessData PID (without :)''
            = Next (node, pid)"
    using assms(2) by (rule clusterPid_Next_any)
  note f = processBody_fixed [OF assms(1), of v e]
  have c1: "flds ! 1 = ''nobody'' \<and> flds ! 2 = ''nogroup'' \<longrightarrow>
            (\<exists>r. processBody v e flds = Next r \<and> P_UserID r = - 1 \<and> P_GroupID r = - 1)"
    by (simp add: f cp)
  have c2: "flds ! 1 = ''nobody'' \<and> flds ! 2 \<noteq> ''nogroup'' \<and> Atoi (flds ! 2) = Inr gid \<longrightarrow>
            (\<exists>r. processBody v e flds = Next r \<and> P_UserID r = - 1 \<and> P_GroupID r = gid)"
    by (simp add: f cp atoiOr_def)
  have c3: "flds ! 1 \<noteq> ''nobody'' \<and> Atoi (flds ! 1) = Inr uid \<and> flds ! 2 = ''nogroup'' \<longrightarrow>
            (\<exists>r. processBody v e flds = Next r \<and> P_UserID r = uid \<and> P_GroupID r = - 1)"
    by (simp add: f cp atoiOr_def)
  have c4: "flds ! 1 \<noteq> ''nobody'' \<and> Atoi (flds ! 1) = Inl er \<longrightarrow>
            processBody v e flds =
              Continue (ErrorWithAddition er ''while getting ProcessData UserID'')"
    by (simp add: f cp atoiOr_def)
  have c5: "(flds ! 1 = ''nobody'' \<or> Atoi (flds ! 1) = Inr uid) \<and>
          flds ! 2 \<noteq> ''nogroup'' \<and> Atoi (flds ! 2) = Inl er \<longrightarrow>
            processBody v e flds =
              Continue (ErrorWithAddition er ''while getting ProcessData GroupID'')"
    by (auto simp: f cp atoiOr_def)
  have c6: "processBody v e flds = Continue d \<longrightarrow>
            rangeLoop (processBody v e) (flds # rest) (lg, ret) =
            rangeLoop (processBody v e) rest (lg @ [d], ret)"
    by simp
  have c7: "Atoi ''nobody'' = Inl (NumError ''Atoi'' ''nobody'' ErrSyntax)"
    "Atoi ''nogroup'' = Inl (NumError ''Atoi'' ''nogroup'' ErrSyntax)"
    by code_simp+
  from c1 c2 c3 c4 c5 c6 c7 show ?thesis by (intro conjI)
qed


theorem nobody_and_nogroup_witness:
  "(\<exists>r. processBody ''4.11.6-Ubuntu'' ProcessData_zero
          [''2:1117'', ''nobody'', ''nogroup'', ''192.168.1.242'', ''(ipv4:192.168.1.242:42296)'',
           ''SMB3_11'', ''-'', ''-''] = Next r \<and> P_UserID r = - 1 \<and> P_GroupID r = - 1) \<and>
   processBody ''4.11.6-Ubuntu'' ProcessData_zero
     [''1116'', ''alice'', ''117'', ''192.168.1.242'', ''(ipv4:192.168.1.242:42296)'',
      ''SMB3_11'', ''-'', ''-'']
     = Continue (ErrorWithAddition (NumError ''Atoi'' ''alice'' ErrSyntax)
                   ''while getting ProcessData UserID'') \<and>
   GetProcessData skippedUserProcessTable =
     Inr ([ErrorWithAddition (NumError ''Atoi'' ''alice'' ErrSyntax)
             ''while getting ProcessData UserID''], [sampleProcessRecord])"
proof -
  have p1: "clusterPid ''2:1117'' [] [] [] = Next (2, 1117)"
    and p2: "clusterPid ''1116'' [] [] [] = Next (- 1, 1116)"
    and al: "Atoi ''alice'' = Inl (NumError ''Atoi'' ''alice'' ErrSyntax)"
    by code_simp+
  from nobody_and_nogroup [where flds = "[''2:1117'', ''nobody'', ''nogroup'', ''192.168.1.242'',
      ''(ipv4:192.168.1.242:42296)'', ''SMB3_11'', ''-'', ''-'']" and a = "[]" and b = "[]"
      and c = "[]" and node = 2 and pid = 1117 and v = "''4.11.6-Ubuntu''" and e = ProcessData_zero] p1
  have 1: "\<exists>r. processBody ''4.11.6-Ubuntu'' ProcessData_zero
          [''2:1117'', ''nobody'', ''nogroup'', ''192.168.1.242'', ''(ipv4:192.168.1.242:42296)'',
           ''SMB3_11'', ''-'', ''-''] = Next r \<and> P_UserID r = - 1 \<and> P_GroupID r = - 1"
    by simp
  from nobody_and_nogroup [where flds = "[''1116'', ''alice'', ''117'', ''192.168.1.242'',
      ''(ipv4:192.168.1.242:42296)'', ''SMB3_11'', ''-'', ''-'']" and a = "[]" and b = "[]"
      and c = "[]" and node = "- 1" and pid = 1116 and v = "''4.11.6-Ubuntu''"
      and e = ProcessData_zero and er = "NumError ''Atoi'' ''alice'' ErrSyntax"] p2 al
  have 2: "processBody ''4.11.6-Ubuntu'' ProcessData_zero
     [''1116'', ''alice'', ''117'', ''192.168.1.242'', ''(ipv4:192.168.1.242:42296)'',
      ''SMB3_11'', ''-'', ''-'']
     = Continue (ErrorWithAddition (NumError ''Atoi'' ''alice'' ErrSyntax)
                   ''while getting ProcessData UserID'')"
    by simp
  have 3: "GetProcessData skippedUserProcessTable =
     Inr ([ErrorWithAddition (NumError ''Atoi'' ''alice'' ErrSyntax)
             ''while getting ProcessData UserID''], [sampleProcessRecord])"
    by code_simp
  from 1 2 3 show ?thesis by blast
qed

text \<open>
  C10. A line is the separator exactly when it begins with 41 dashes, whatever follows them;
  the index returned is that of the first such line, and \<open>- 1\<close> when there is none. A row
  of fewer than 41 dashes is no separator, and a table without a separator parses to the
  empty collection in all three parsers.
\<close>

theorem separator_is_41_dashes:
  "(findSeperatorLineIndex lines = - 1 \<longleftrightarrow> (\<forall>l \<in> set lines. \<not> HasPrefix l separatorPrefix)) \<and>
   (findSeperatorLineIndex lines \<noteq> - 1 \<longrightarrow>
      0 \<le> findSeperatorLineIndex lines \<and>
      nat (findSeperatorLineIndex lines) < length lines \<and>
      HasPrefix (lines ! nat (findSeperatorLineIndex lines)) separatorPrefix \<and>
      (\<forall>j < nat (findSeperatorLineIndex lines). \<not> HasPrefix (lines ! j) separatorPrefix)) \<and>
   (HasPrefix line separatorPrefix \<longleftrightarrow> (\<exists>rest. line = replicate 41 (CHR ''-'') @ rest)) \<and>
   (k < 41 \<longrightarrow> \<not> HasPrefix (replicate k (CHR ''-'')) separatorPrefix) \<and>
   ((\<forall>l \<in> set (Split data NL). \<not> HasPrefix l separatorPrefix) \<longrightarrow>
      GetLockData env data = Inr ([], []) \<and> GetShareData env data = Inr ([], []) \<and>
      GetProcessData data = Inr ([], []))"
proof (intro conjI)
  show "findSeperatorLineIndex lines = - 1 \<longleftrightarrow> (\<forall>l \<in> set lines. \<not> HasPrefix l separatorPrefix)"
    using findFrom_none [of 0 lines] by (simp add: findSeperatorLineIndex_def)
next
  show "findSeperatorLineIndex lines \<noteq> - 1 \<longrightarrow>
      0 \<le> findSeperatorLineIndex lines \<and>
      nat (findSeperatorLineIndex lines) < length lines \<and>
      HasPrefix (lines ! nat (findSeperatorLineIndex lines)) separatorPrefix \<and>
      (\<forall>j < nat (findSeperatorLineIndex lines). \<not> HasPrefix (lines ! j) separatorPrefix)"
  proof
    assume n: "findSeperatorLineIndex lines \<noteq> - 1"
    then have r: "0 \<le> findSeperatorLineIndex lines"
      "findSeperatorLineIndex lines < int (length lines)"
      using sep_range [of lines] by auto
    have "findFrom 0 lines = findSeperatorLineIndex lines"
      by (simp add: findSeperatorLineIndex_def)
    from findFrom_first [OF this n] r
    show "0 \<le> findSeperatorLineIndex lines \<and>
      nat (findSeperatorLineIndex lines) < length lines \<and>
      HasPrefix (lines ! nat (findSeperatorLineIndex lines)) separatorPrefix \<and>
      (\<forall>j < nat (findSeperatorLineIndex lines). \<not> HasPrefix (lines ! j) separatorPrefix)"
      by auto
  qed
next
  show "HasPrefix line separatorPrefix \<longleftrightarrow> (\<exists>rest. line = replicate 41 (CHR ''-'') @ rest)"
    by (simp only: HasPrefix_iff separatorPrefix_replicate)
next
  show "k < 41 \<longrightarrow> \<not> HasPrefix (replicate k (CHR ''-'')) separatorPrefix"
    by (simp add: short_dash_row)
next
  show "(\<forall>l \<in> set (Split data NL). \<not> HasPrefix l separatorPrefix) \<longrightarrow>
      GetLockData env data = Inr ([], []) \<and> GetShareData env data = Inr ([], []) \<and>
      GetProcessData data = Inr ([], [])"
    using no_separator(1) [of data env] no_separator(2) [of data env] no_separator(3) [of data]
    by blast
qed

theorem separator_is_41_dashes_witness:
  "findSeperatorLineIndex [sampleLockHeader, sampleSeparator, sampleSeparator] = 1 \<and>
   HasPrefix sampleSeparator separatorPrefix \<and>
   \<not> HasPrefix (replicate 40 (CHR ''-'')) separatorPrefix \<and>
   GetLockData sampleEnv shortDashTable = Inr ([], []) \<and>
   GetShareData sampleEnv shortDashTable = Inr ([], []) \<and>
   GetProcessData shortDashTable = Inr ([], [])"
proof -
  have i: "findSeperatorLineIndex [sampleLockHeader, sampleSeparator, sampleSeparator] = 1"
    by code_simp
  have p: "HasPrefix sampleSeparator separatorPrefix" by code_simp
  have "list_all (\<lambda>l. \<not> HasPrefix l separatorPrefix) (Split shortDashTable NL)" by code_simp
  then have n: "\<forall>l \<in> set (Split shortDashTable NL). \<not> HasPrefix l separatorPrefix"
    by (simp add: list_all_iff)
  have k: "(40::nat) < 41" by simp
  show ?thesis
    using separator_is_41_dashes [where lines = "[sampleLockHeader, sampleSeparator, sampleSeparator]"
        and line = sampleSeparator and k = 40 and data = shortDashTable and env = sampleEnv]
      i p n k
    by blast
qed

end
